theory Spec2Isabelle
  imports Main "HOL-Library.AList"
begin

section \<open>Python values, dictionaries and exceptions\<close>

text \<open>
  The services of CESIzen (auth_service, info_service, user_service) pass Python
  dictionaries around: JWT claim sets, MongoDB documents, the \<open>.dict()\<close> of a pydantic
  model. A dictionary is an association list in insertion order; \<open>map_of\<close> reads a key,
  \<open>AList.update\<close> is \<open>d[k] = v\<close> and \<open>AList.delete\<close> is what \<open>d.pop(k)\<close> leaves.
  Points in time (\<open>datetime\<close>) and durations (\<open>timedelta\<close>) are integers in
  microseconds, the resolution of Python's \<open>datetime\<close>.
\<close>

datatype pyval = PStr string | PInt int | PBool bool | PNone | PDatetime int | PObjectId nat

type_synonym pydict = "(string \<times> pyval) list"

type_synonym datetime = int

type_synonym timedelta = int

datatype error =
    HTTPException nat string
  | JWTError
  | ExpiredSignatureError
  | JWTClaimsError
  | DuplicateKeyError
  | ValidationError
  | TypeError
  | KeyError
  | ValueError
  | OverflowError

text \<open>\<open>except JWTError\<close> catches the class and its two subclasses.\<close>

fun is_JWTError :: "error \<Rightarrow> bool" where
  "is_JWTError JWTError = True"
| "is_JWTError ExpiredSignatureError = True"
| "is_JWTError JWTClaimsError = True"
| "is_JWTError _ = False"

text \<open>
  An \<open>HTTPException\<close> is answered with its own status code; any other exception that
  leaves a handler is answered with 500 by the framework.
\<close>

fun http_status :: "error \<Rightarrow> nat" where
  "http_status (HTTPException code detail) = code"
| "http_status _ = 500"

definition dict_get :: "pydict \<Rightarrow> string \<Rightarrow> pyval" where
  "dict_get d k = (case map_of d k of None \<Rightarrow> PNone | Some v \<Rightarrow> v)"

definition dict_get_default :: "pydict \<Rightarrow> string \<Rightarrow> pyval \<Rightarrow> pyval" where
  "dict_get_default d k dflt = (case map_of d k of None \<Rightarrow> dflt | Some v \<Rightarrow> v)"

definition dict_contains :: "string \<Rightarrow> pydict \<Rightarrow> bool" where
  "dict_contains k d = (map_of d k \<noteq> None)"

definition dict_item :: "pydict \<Rightarrow> string \<Rightarrow> error + pyval" where
  "dict_item d k = (case map_of d k of None \<Rightarrow> Inl KeyError | Some v \<Rightarrow> Inr v)"

text \<open>Truthiness of the \<open>Optional[dict]\<close> that \<open>find_one\<close> returns.\<close>

fun truthy_doc :: "pydict option \<Rightarrow> bool" where
  "truthy_doc None = False"
| "truthy_doc (Some d) = (d \<noteq> [])"

definition timedelta_minutes :: "int \<Rightarrow> timedelta" where
  "timedelta_minutes m = m * 60000000"

text \<open>
  \<open>datetime.min\<close> is the first microsecond of the year 1 and \<open>datetime.max\<close> the last
  of the year 9999; \<open>datetime + timedelta\<close> raises \<open>OverflowError\<close> when the sum leaves
  that range.
\<close>

definition datetime_min :: datetime where
  "datetime_min = - 62135596800000000"

definition datetime_max :: datetime where
  "datetime_max = 253402300799999999"

definition datetime_add :: "datetime \<Rightarrow> timedelta \<Rightarrow> error + datetime" where
  "datetime_add t delta =
     (if t + delta < datetime_min \<or> datetime_max < t + delta then Inl OverflowError
      else Inr (t + delta))"

text \<open>\<open>timegm(t.utctimetuple())\<close>: whole seconds since the epoch, microseconds dropped.\<close>

definition timegm_utctimetuple :: "datetime \<Rightarrow> int" where
  "timegm_utctimetuple t = t div 1000000"

text \<open>
  Python's \<open>int(x)\<close> on the values a claim can hold. A string is stripped of
  surrounding whitespace and read as an optional sign followed by decimal digits, with
  single underscores allowed between digits; a string that is not of that form is a
  \<open>ValueError\<close>, and \<open>None\<close> is a \<open>TypeError\<close>. Only ASCII digits and whitespace are
  recognised, and JSON numbers are integers here.
\<close>

definition py_isspace :: "char \<Rightarrow> bool" where
  "py_isspace c = ((of_char c :: nat) \<in> {9, 10, 11, 12, 13, 28, 29, 30, 31, 32})"

definition py_isdigit :: "char \<Rightarrow> bool" where
  "py_isdigit c = (48 \<le> (of_char c :: nat) \<and> (of_char c :: nat) \<le> 57)"

definition digit_value :: "char \<Rightarrow> nat" where
  "digit_value c = of_char c - 48"

fun int_digits :: "bool \<Rightarrow> nat \<Rightarrow> string \<Rightarrow> nat option" where
  "int_digits after_digit acc [] = (if after_digit then Some acc else None)"
| "int_digits after_digit acc (c # cs) =
     (if py_isdigit c then int_digits True (10 * acc + digit_value c) cs
      else if c = CHR ''_'' \<and> after_digit then int_digits False acc cs
      else None)"

definition py_strip :: "string \<Rightarrow> string" where
  "py_strip s = rev (dropWhile py_isspace (rev (dropWhile py_isspace s)))"

definition int_of_str :: "string \<Rightarrow> int option" where
  "int_of_str s =
     (case py_strip s of
        [] \<Rightarrow> None
      | c # cs \<Rightarrow>
          if c = CHR ''-'' then map_option (\<lambda>n. - int n) (int_digits False 0 cs)
          else if c = CHR ''+'' then map_option int (int_digits False 0 cs)
          else map_option int (int_digits False 0 (c # cs)))"

fun py_int :: "pyval \<Rightarrow> error + int" where
  "py_int (PInt n) = Inr n"
| "py_int (PBool b) = Inr (if b then 1 else 0)"
| "py_int (PStr s) = (case int_of_str s of None \<Rightarrow> Inl ValueError | Some n \<Rightarrow> Inr n)"
| "py_int _ = Inl TypeError"

section \<open>Process configuration and library handles\<close>

text \<open>
  The module-level configuration of auth_service/main.py, read from the environment,
  together with the three library entry points whose code is not part of the
  repository and that are therefore parameters: \<open>pwd_context.hash\<close> (the value it
  returns at this call, salt included), \<open>pwd_context.verify\<close>, and the pydantic type
  \<open>EmailStr\<close> (which strings it accepts).
\<close>

record env =
  SECRET_KEY :: string
  ALGORITHM :: string
  ACCESS_TOKEN_EXPIRE_MINUTES :: int
  pwd_hash :: "string \<Rightarrow> string"
  pwd_verify :: "string \<Rightarrow> string \<Rightarrow> bool"
  EmailStr :: "string \<Rightarrow> bool"

text \<open>info_service/main.py and user_service/main.py hard-code their copy.\<close>

definition info_SECRET_KEY :: string where
  "info_SECRET_KEY = ''YOUR_SECRET_KEY_HERE''"

definition info_ALGORITHM :: string where
  "info_ALGORITHM = ''HS256''"

definition user_SECRET_KEY :: string where
  "user_SECRET_KEY = ''YOUR_SECRET_KEY_HERE''"

definition user_ALGORITHM :: string where
  "user_ALGORITHM = ''HS256''"

section \<open>Signed tokens (python-jose)\<close>

text \<open>
  \<open>jose.jwt\<close> is a library, so its two functions are modelled symbolically: a token
  records the algorithm named in its header, the key it was signed with and its claim
  set, and a signature verifies exactly when the verifier holds the signing key. A
  bearer string that is not a well-formed token is \<open>Undecodable\<close>. The configured pair
  of algorithm and key is taken to be one the library can sign with. What the model
  keeps of the library:
  \<^item> \<open>encode\<close> replaces a \<open>datetime\<close> under \<open>exp\<close>, \<open>iat\<close> or \<open>nbf\<close> by its whole
    epoch seconds, and fails on a value that JSON cannot carry;
  \<^item> \<open>decode\<close> rejects an algorithm outside the allowed list and a signature made
    with another key, and then validates the registered claims, in this order and each
    only when present: \<open>iat\<close> must convert with \<open>int\<close>; \<open>nbf\<close> must convert and
    must not lie after the current whole second; \<open>exp\<close> must convert and must not be
    smaller than the current whole second (the library's test is \<open>exp < now\<close>);
    \<open>aud\<close> is refused, since the services pass no audience; \<open>sub\<close> must be a string;
    \<open>jti\<close> must be a string; \<open>at_hash\<close> is refused, since no access token is passed.
    The issuer is not checked, since none is passed. A failed conversion is a
    \<open>JWTClaimsError\<close> when \<open>int\<close> raises \<open>ValueError\<close>; its \<open>TypeError\<close> is not caught
    by the library.
\<close>

datatype token = Signed string string pydict | Undecodable

fun json_serializable :: "pyval \<Rightarrow> bool" where
  "json_serializable (PDatetime t) = False"
| "json_serializable (PObjectId n) = False"
| "json_serializable _ = True"

definition to_intdate :: "pydict \<Rightarrow> string \<Rightarrow> pydict" where
  "to_intdate claims k =
     (case map_of claims k of
        Some (PDatetime t) \<Rightarrow> AList.update k (PInt (timegm_utctimetuple t)) claims
      | _ \<Rightarrow> claims)"

definition jwt_encode :: "pydict \<Rightarrow> string \<Rightarrow> string \<Rightarrow> error + token" where
  "jwt_encode claims key algorithm =
     (let claims' = foldl to_intdate claims [''exp'', ''iat'', ''nbf'']
      in if list_all (\<lambda>kv. json_serializable (snd kv)) claims'
         then Inr (Signed algorithm key claims')
         else Inl TypeError)"

text \<open>\<open>int(claims[k])\<close> inside \<open>try ... except ValueError: raise JWTClaimsError\<close>.\<close>

definition int_claim :: "pyval \<Rightarrow> error + int" where
  "int_claim v =
     (case py_int v of
        Inl e \<Rightarrow> if e = ValueError then Inl JWTClaimsError else Inl e
      | Inr n \<Rightarrow> Inr n)"

definition validate_iat :: "pydict \<Rightarrow> error option" where
  "validate_iat claims =
     (case map_of claims ''iat'' of
        None \<Rightarrow> None
      | Some v \<Rightarrow> (case int_claim v of Inl e \<Rightarrow> Some e | Inr iat \<Rightarrow> None))"

definition validate_nbf :: "datetime \<Rightarrow> pydict \<Rightarrow> error option" where
  "validate_nbf utcnow claims =
     (case map_of claims ''nbf'' of
        None \<Rightarrow> None
      | Some v \<Rightarrow>
          (case int_claim v of
             Inl e \<Rightarrow> Some e
           | Inr nbf \<Rightarrow>
               if nbf > timegm_utctimetuple utcnow then Some JWTClaimsError else None))"

definition validate_exp :: "datetime \<Rightarrow> pydict \<Rightarrow> error option" where
  "validate_exp utcnow claims =
     (case map_of claims ''exp'' of
        None \<Rightarrow> None
      | Some v \<Rightarrow>
          (case int_claim v of
             Inl e \<Rightarrow> Some e
           | Inr exp \<Rightarrow>
               if exp < timegm_utctimetuple utcnow then Some ExpiredSignatureError
               else None))"

definition validate_aud :: "pydict \<Rightarrow> error option" where
  "validate_aud claims =
     (case map_of claims ''aud'' of
        None \<Rightarrow> None
      | Some v \<Rightarrow> Some JWTClaimsError)"

definition validate_sub :: "pydict \<Rightarrow> error option" where
  "validate_sub claims =
     (case map_of claims ''sub'' of
        None \<Rightarrow> None
      | Some (PStr s) \<Rightarrow> None
      | Some _ \<Rightarrow> Some JWTClaimsError)"

definition validate_jti :: "pydict \<Rightarrow> error option" where
  "validate_jti claims =
     (case map_of claims ''jti'' of
        None \<Rightarrow> None
      | Some (PStr s) \<Rightarrow> None
      | Some _ \<Rightarrow> Some JWTClaimsError)"

definition validate_at_hash :: "pydict \<Rightarrow> error option" where
  "validate_at_hash claims =
     (case map_of claims ''at_hash'' of
        None \<Rightarrow> None
      | Some v \<Rightarrow> Some JWTClaimsError)"

fun first_error :: "error option list \<Rightarrow> error option" where
  "first_error [] = None"
| "first_error (None # checks) = first_error checks"
| "first_error (Some e # checks) = Some e"

definition validate_claims :: "datetime \<Rightarrow> pydict \<Rightarrow> error option" where
  "validate_claims utcnow claims =
     first_error
       [validate_iat claims, validate_nbf utcnow claims, validate_exp utcnow claims,
        validate_aud claims, validate_sub claims, validate_jti claims,
        validate_at_hash claims]"

definition jwt_decode :: "datetime \<Rightarrow> token \<Rightarrow> string \<Rightarrow> string list \<Rightarrow> error + pydict" where
  "jwt_decode utcnow tok key algorithms =
     (case tok of
        Undecodable \<Rightarrow> Inl JWTError
      | Signed alg k claims \<Rightarrow>
          if alg \<notin> set algorithms then Inl JWTError
          else if k \<noteq> key then Inl JWTError
          else (case validate_claims utcnow claims of
                  Some e \<Rightarrow> Inl e
                | None \<Rightarrow> Inr claims))"

section \<open>Token issuer and validator\<close>

text \<open>
  auth_service/main.py, \<open>create_access_token\<close>. \<open>if expires_delta:\<close> is false for
  \<open>None\<close> and for a zero \<open>timedelta\<close>; both take the 15 minute branch. The sum of
  the clock and the caller's \<open>expires_delta\<close> raises \<open>OverflowError\<close> when it is not a
  \<open>datetime\<close>, and then no token is issued. \<open>utcnow\<close> is the reading of the clock, the
  present, to which the constant 15 minutes can always be added.
\<close>

definition create_access_token ::
  "env \<Rightarrow> datetime \<Rightarrow> pydict \<Rightarrow> timedelta option \<Rightarrow> error + token" where
  "create_access_token cfg utcnow data expires_delta =
     (let to_encode = data
      in case (case expires_delta of
                 Some delta \<Rightarrow>
                   if delta \<noteq> 0 then datetime_add utcnow delta
                   else Inr (utcnow + timedelta_minutes 15)
               | None \<Rightarrow> Inr (utcnow + timedelta_minutes 15)) of
           Inl e \<Rightarrow> Inl e
         | Inr expire \<Rightarrow>
             (let to_encode = AList.update ''exp'' (PDatetime expire) to_encode
              in jwt_encode to_encode (SECRET_KEY cfg) (ALGORITHM cfg)))"

definition credentials_exception :: error where
  "credentials_exception = HTTPException 401 ''Could not validate credentials''"

text \<open>The pydantic model \<open>TokenData\<close>: two optional strings.\<close>

record TokenData =
  td_username :: "string option"
  td_role :: "string option"

fun optional_str :: "pyval \<Rightarrow> error + string option" where
  "optional_str (PStr s) = Inr (Some s)"
| "optional_str PNone = Inr None"
| "optional_str _ = Inl ValidationError"

text \<open>
  The \<open>try\<close> block of auth_service's \<open>get_current_user\<close>: decode, read \<open>sub\<close> and
  \<open>role\<close> (default \<open>"user"\<close>), refuse a missing subject, build the \<open>TokenData\<close>. Every
  \<open>JWTError\<close> becomes the credentials exception; a validation error of \<open>TokenData\<close>
  is not caught.
\<close>

definition decode_token_data :: "env \<Rightarrow> datetime \<Rightarrow> token \<Rightarrow> error + TokenData" where
  "decode_token_data cfg utcnow tok =
     (case jwt_decode utcnow tok (SECRET_KEY cfg) [ALGORITHM cfg] of
        Inl e \<Rightarrow> if is_JWTError e then Inl credentials_exception else Inl e
      | Inr payload \<Rightarrow>
          (let username = dict_get payload ''sub'';
               role = dict_get_default payload ''role'' (PStr ''user'')
           in if username = PNone then Inl credentials_exception
              else (case optional_str username of
                      Inl e \<Rightarrow> Inl e
                    | Inr u \<Rightarrow>
                        (case optional_str role of
                           Inl e \<Rightarrow> Inl e
                         | Inr r \<Rightarrow> Inr \<lparr>td_username = u, td_role = r\<rparr>))))"

text \<open>info_service/main.py, \<open>get_current_user\<close> and \<open>get_admin_user\<close>.\<close>

definition info_get_current_user :: "datetime \<Rightarrow> token \<Rightarrow> error + pydict" where
  "info_get_current_user utcnow tok =
     (case jwt_decode utcnow tok info_SECRET_KEY [info_ALGORITHM] of
        Inl e \<Rightarrow> if is_JWTError e then Inl credentials_exception else Inl e
      | Inr payload \<Rightarrow>
          (let username = dict_get payload ''sub''
           in if username = PNone then Inl credentials_exception
              else Inr [(''username'', username),
                        (''role'', dict_get_default payload ''role'' (PStr ''user''))]))"

definition info_get_admin_user :: "datetime \<Rightarrow> token \<Rightarrow> error + pydict" where
  "info_get_admin_user utcnow tok =
     (case info_get_current_user utcnow tok of
        Inl e \<Rightarrow> Inl e
      | Inr current_user \<Rightarrow>
          if dict_get current_user ''role'' \<noteq> PStr ''admin''
          then Inl (HTTPException 403 ''Not enough permissions'')
          else Inr current_user)"

text \<open>
  user_service/main.py, \<open>get_current_user\<close>. The remote answer of
  \<open>GET /verify-token\<close> is an input: \<open>None\<close> when \<open>requests.get\<close> raises, otherwise
  the status code and the body, taken to be JSON. The credentials exception raised
  for a status other than 200 is itself caught by \<open>except Exception\<close>, so that case
  reaches the local fallback as well.
\<close>

definition user_get_current_user ::
  "(nat \<times> pydict) option \<Rightarrow> datetime \<Rightarrow> token \<Rightarrow> error + pydict" where
  "user_get_current_user response utcnow tok =
     (let fallback =
            (case jwt_decode utcnow tok user_SECRET_KEY [user_ALGORITHM] of
               Inl e \<Rightarrow> if is_JWTError e then Inl credentials_exception else Inl e
             | Inr payload \<Rightarrow>
                 (let username = dict_get payload ''sub''
                  in if username = PNone then Inl credentials_exception
                     else Inr [(''username'', username),
                               (''role'', dict_get_default payload ''role'' (PStr ''user''))]))
      in case response of
           None \<Rightarrow> fallback
         | Some (status_code, body) \<Rightarrow>
             if status_code \<noteq> 200 then fallback else Inr body)"

definition user_get_admin_user ::
  "(nat \<times> pydict) option \<Rightarrow> datetime \<Rightarrow> token \<Rightarrow> error + pydict" where
  "user_get_admin_user response utcnow tok =
     (case user_get_current_user response utcnow tok of
        Inl e \<Rightarrow> Inl e
      | Inr current_user \<Rightarrow>
          if dict_get current_user ''role'' \<noteq> PStr ''admin''
          then Inl (HTTPException 403 ''Not enough permissions'')
          else Inr current_user)"

section \<open>The users collection (pymongo)\<close>

text \<open>
  The MongoDB collection behind \<open>UserRepository\<close>: its documents in natural order,
  the fields that carry a unique index, and a counter from which \<open>insert_one\<close> draws
  the generated \<open>_id\<close>. What the model keeps of the database:
  \<^item> \<open>find_one({k: v})\<close> returns the first document whose field \<open>k\<close> equals \<open>v\<close>;
  \<^item> a unique index files a document that lacks the field under \<open>null\<close>, so it admits
    at most one document whose field is missing or \<open>null\<close>; a write that would give
    two documents the same value of an indexed field raises \<open>DuplicateKeyError\<close> and
    changes nothing;
  \<^item> \<open>update_one\<close> with \<open>$set\<close> touches the first matching document, and counts it as
    modified only when some field receives a value different from the one it has;
  \<^item> \<open>delete_one\<close> removes the first matching document;
  \<^item> \<open>create_index(k, unique=True)\<close> fails when two documents already share a value
    of \<open>k\<close>, and is otherwise recorded.
  The index that every collection has on \<open>_id\<close> is left out: generated ids are fresh.
  Every operation returns the collection it leaves behind together with its result or
  the exception it raises.
\<close>

record collection =
  docs :: "pydict list"
  unique_indexes :: "string list"
  oid_counter :: nat

definition find_one :: "collection \<Rightarrow> string \<Rightarrow> pyval \<Rightarrow> pydict option" where
  "find_one c k v = List.find (\<lambda>d. map_of d k = Some v) (docs c)"

definition duplicate_key :: "string list \<Rightarrow> pydict list \<Rightarrow> pydict \<Rightarrow> bool" where
  "duplicate_key idx ds d =
     list_ex (\<lambda>k. list_ex (\<lambda>d0. dict_get d0 k = dict_get d k) ds) idx"

text \<open>
  \<open>insert_one\<close> adds \<open>_id\<close> to the dictionary it is given (the caller sees it) and
  returns that dictionary with the inserted id.
\<close>

definition insert_one :: "collection \<Rightarrow> pydict \<Rightarrow> collection \<times> (error + pydict \<times> pyval)" where
  "insert_one c document =
     (let document = (if dict_contains ''_id'' document then document
                      else AList.update ''_id'' (PObjectId (oid_counter c)) document)
      in if duplicate_key (unique_indexes c) (docs c) document
         then (c, Inl DuplicateKeyError)
         else (c\<lparr>docs := docs c @ [document], oid_counter := Suc (oid_counter c)\<rparr>,
               Inr (document, dict_get document ''_id'')))"

definition set_fields :: "pydict \<Rightarrow> pydict \<Rightarrow> pydict" where
  "set_fields d upd = foldl (\<lambda>acc kv. AList.update (fst kv) (snd kv) acc) d upd"

definition set_is_noop :: "pydict \<Rightarrow> pydict \<Rightarrow> bool" where
  "set_is_noop d upd = list_all (\<lambda>kv. map_of d (fst kv) = Some (snd kv)) upd"

fun replace_first :: "('a \<Rightarrow> bool) \<Rightarrow> 'a \<Rightarrow> 'a list \<Rightarrow> 'a list" where
  "replace_first P y [] = []"
| "replace_first P y (x # xs) = (if P x then y # xs else x # replace_first P y xs)"

fun remove_first :: "('a \<Rightarrow> bool) \<Rightarrow> 'a list \<Rightarrow> 'a list" where
  "remove_first P [] = []"
| "remove_first P (x # xs) = (if P x then xs else x # remove_first P xs)"

text \<open>The result of \<open>update_one\<close> is the pair of matched and modified counts.\<close>

definition update_one ::
  "collection \<Rightarrow> string \<Rightarrow> pyval \<Rightarrow> pydict \<Rightarrow> collection \<times> (error + nat \<times> nat)" where
  "update_one c k v upd =
     (case find_one c k v of
        None \<Rightarrow> (c, Inr (0, 0))
      | Some d \<Rightarrow>
          if set_is_noop d upd then (c, Inr (1, 0))
          else (let d' = set_fields d upd;
                    others = remove_first (\<lambda>d. map_of d k = Some v) (docs c)
                in if duplicate_key (unique_indexes c) others d'
                   then (c, Inl DuplicateKeyError)
                   else (c\<lparr>docs := replace_first (\<lambda>d. map_of d k = Some v) d' (docs c)\<rparr>,
                         Inr (1, 1))))"

definition delete_one :: "collection \<Rightarrow> string \<Rightarrow> pyval \<Rightarrow> collection \<times> nat" where
  "delete_one c k v =
     (case find_one c k v of
        None \<Rightarrow> (c, 0)
      | Some d \<Rightarrow> (c\<lparr>docs := remove_first (\<lambda>d. map_of d k = Some v) (docs c)\<rparr>, 1))"

definition create_unique_index :: "collection \<Rightarrow> string \<Rightarrow> collection \<times> (error + unit)" where
  "create_unique_index c k =
     (if distinct (map (\<lambda>d. dict_get d k) (docs c))
      then (c\<lparr>unique_indexes := List.insert k (unique_indexes c)\<rparr>, Inr ())
      else (c, Inl DuplicateKeyError))"

section \<open>UserRepository (auth_service/database/user_repository.py)\<close>

definition get_user_by_username :: "collection \<Rightarrow> string \<Rightarrow> pydict option" where
  "get_user_by_username c username = find_one c ''username'' (PStr username)"

definition get_user_by_email :: "collection \<Rightarrow> pyval \<Rightarrow> pydict option" where
  "get_user_by_email c email = find_one c ''email'' email"

text \<open>\<open>pwd_context.hash\<close> takes a string; anything else is a \<open>TypeError\<close>.\<close>

fun pwd_context_hash :: "env \<Rightarrow> pyval \<Rightarrow> error + pyval" where
  "pwd_context_hash cfg (PStr secret) = Inr (PStr (pwd_hash cfg secret))"
| "pwd_context_hash cfg _ = Inl TypeError"

text \<open>
  The first statement of \<open>create_user\<close> and of \<open>update_user\<close>: the password is popped,
  hashed, and stored under \<open>hashed_password\<close>.
\<close>

definition hash_password_field :: "env \<Rightarrow> pydict \<Rightarrow> error + pydict" where
  "hash_password_field cfg user_data =
     (if dict_contains ''password'' user_data
      then (case pwd_context_hash cfg (dict_get user_data ''password'') of
              Inl e \<Rightarrow> Inl e
            | Inr h \<Rightarrow> Inr (AList.update ''hashed_password'' h
                              (AList.delete ''password'' user_data)))
      else Inr user_data)"

text \<open>
  \<open>create_user\<close> changes the dictionary it is given in place; the result carries that
  dictionary as the caller sees it afterwards, next to the inserted id.
\<close>

definition UserRepository_create_user ::
  "env \<Rightarrow> collection \<Rightarrow> pydict \<Rightarrow> collection \<times> (error + pydict \<times> pyval)" where
  "UserRepository_create_user cfg c user_data =
     (case hash_password_field cfg user_data of
        Inl e \<Rightarrow> (c, Inl e)
      | Inr user_data \<Rightarrow>
          (let user_data = (if \<not> dict_contains ''role'' user_data
                            then AList.update ''role'' (PStr ''user'') user_data
                            else user_data);
               user_data = (if \<not> dict_contains ''disabled'' user_data
                            then AList.update ''disabled'' (PBool False) user_data
                            else user_data)
           in insert_one c user_data))"

definition UserRepository_update_user ::
  "env \<Rightarrow> collection \<Rightarrow> string \<Rightarrow> pydict \<Rightarrow> collection \<times> (error + bool)" where
  "UserRepository_update_user cfg c username user_data =
     (case hash_password_field cfg user_data of
        Inl e \<Rightarrow> (c, Inl e)
      | Inr user_data \<Rightarrow>
          (case update_one c ''username'' (PStr username) user_data of
             (c', Inl e) \<Rightarrow> (c', Inl e)
           | (c', Inr (matched_count, modified_count)) \<Rightarrow> (c', Inr (modified_count > 0))))"

definition UserRepository_delete_user :: "collection \<Rightarrow> string \<Rightarrow> collection \<times> bool" where
  "UserRepository_delete_user c username =
     (case delete_one c ''username'' (PStr username) of
        (c', deleted_count) \<Rightarrow> (c', deleted_count > 0))"

definition verify_password :: "env \<Rightarrow> string \<Rightarrow> string \<Rightarrow> bool" where
  "verify_password cfg plain_password hashed_password = pwd_verify cfg plain_password hashed_password"

definition create_index :: "collection \<Rightarrow> collection \<times> (error + unit)" where
  "create_index c =
     (case create_unique_index c ''username'' of
        (c', Inl e) \<Rightarrow> (c', Inl e)
      | (c', Inr u) \<Rightarrow> create_unique_index c' ''email'')"

definition init_admin_user ::
  "env \<Rightarrow> collection \<Rightarrow> string \<Rightarrow> string \<Rightarrow> string \<Rightarrow> collection \<times> (error + bool)" where
  "init_admin_user cfg c admin_username admin_password admin_email =
     (if \<not> truthy_doc (get_user_by_username c admin_username)
      then (case UserRepository_create_user cfg c
                   [(''username'', PStr admin_username),
                    (''email'', PStr admin_email),
                    (''password'', PStr admin_password),
                    (''full_name'', PStr ''Admin User''),
                    (''role'', PStr ''admin''),
                    (''disabled'', PBool False)] of
              (c', Inl e) \<Rightarrow> (c', Inl e)
            | (c', Inr r) \<Rightarrow> (c', Inr True))
      else (c, Inr False))"

section \<open>The pydantic models of auth_service/main.py\<close>

text \<open>
  \<open>UserBase\<close> with its two extensions, and \<open>UserUpdate\<close>, whose fields are all optional.
  \<open>UserInDB(**document)\<close> validates a stored document: \<open>username\<close> and
  \<open>hashed_password\<close> are required strings, \<open>email\<close> is absent, \<open>null\<close> or a string that
  \<open>EmailStr\<close> accepts, \<open>disabled\<close> defaults to \<open>False\<close> and \<open>role\<close> to \<open>"user"\<close>, and
  keys that are not fields (such as \<open>_id\<close>) are ignored. Coercions between types are
  not modelled: a value of another type is a validation error.
\<close>

record UserBase =
  username :: string
  email :: "string option"
  full_name :: "string option"
  disabled :: "bool option"
  role :: string

record UserCreate = UserBase +
  password :: string

record UserInDB = UserBase +
  hashed_password :: string

record UserUpdate =
  upd_email :: "string option"
  upd_full_name :: "string option"
  upd_password :: "string option"
  upd_disabled :: "bool option"
  upd_role :: "string option"

fun py_optional_str :: "string option \<Rightarrow> pyval" where
  "py_optional_str None = PNone"
| "py_optional_str (Some s) = PStr s"

fun py_optional_bool :: "bool option \<Rightarrow> pyval" where
  "py_optional_bool None = PNone"
| "py_optional_bool (Some b) = PBool b"

definition UserCreate_dict :: "UserCreate \<Rightarrow> pydict" where
  "UserCreate_dict user =
     [(''username'', PStr (username user)),
      (''email'', py_optional_str (email user)),
      (''full_name'', py_optional_str (full_name user)),
      (''disabled'', py_optional_bool (disabled user)),
      (''role'', PStr (role user)),
      (''password'', PStr (password user))]"

definition UserUpdate_dict :: "UserUpdate \<Rightarrow> pydict" where
  "UserUpdate_dict user_update =
     [(''email'', py_optional_str (upd_email user_update)),
      (''full_name'', py_optional_str (upd_full_name user_update)),
      (''password'', py_optional_str (upd_password user_update)),
      (''disabled'', py_optional_bool (upd_disabled user_update)),
      (''role'', py_optional_str (upd_role user_update))]"

fun required_str :: "pyval option \<Rightarrow> error + string" where
  "required_str (Some (PStr s)) = Inr s"
| "required_str _ = Inl ValidationError"

fun optional_str_field :: "pyval option \<Rightarrow> error + string option" where
  "optional_str_field None = Inr None"
| "optional_str_field (Some PNone) = Inr None"
| "optional_str_field (Some (PStr s)) = Inr (Some s)"
| "optional_str_field _ = Inl ValidationError"

fun optional_email_field :: "env \<Rightarrow> pyval option \<Rightarrow> error + string option" where
  "optional_email_field cfg None = Inr None"
| "optional_email_field cfg (Some PNone) = Inr None"
| "optional_email_field cfg (Some (PStr s)) =
     (if EmailStr cfg s then Inr (Some s) else Inl ValidationError)"
| "optional_email_field cfg _ = Inl ValidationError"

fun disabled_field :: "pyval option \<Rightarrow> error + bool option" where
  "disabled_field None = Inr (Some False)"
| "disabled_field (Some PNone) = Inr None"
| "disabled_field (Some (PBool b)) = Inr (Some b)"
| "disabled_field _ = Inl ValidationError"

fun role_field :: "pyval option \<Rightarrow> error + string" where
  "role_field None = Inr ''user''"
| "role_field (Some (PStr s)) = Inr s"
| "role_field _ = Inl ValidationError"

definition UserInDB_parse :: "env \<Rightarrow> pydict \<Rightarrow> error + UserInDB" where
  "UserInDB_parse cfg d =
     (case required_str (map_of d ''username'') of
        Inl e \<Rightarrow> Inl e
      | Inr un \<Rightarrow>
     (case optional_email_field cfg (map_of d ''email'') of
        Inl e \<Rightarrow> Inl e
      | Inr em \<Rightarrow>
     (case optional_str_field (map_of d ''full_name'') of
        Inl e \<Rightarrow> Inl e
      | Inr fn \<Rightarrow>
     (case disabled_field (map_of d ''disabled'') of
        Inl e \<Rightarrow> Inl e
      | Inr dis \<Rightarrow>
     (case role_field (map_of d ''role'') of
        Inl e \<Rightarrow> Inl e
      | Inr ro \<Rightarrow>
     (case required_str (map_of d ''hashed_password'') of
        Inl e \<Rightarrow> Inl e
      | Inr hp \<Rightarrow>
          Inr \<lparr>username = un, email = em, full_name = fn, disabled = dis, role = ro,
               hashed_password = hp\<rparr>))))))"

text \<open>The fields of the response model \<open>User\<close>; a response keeps these keys only.\<close>

definition User_fields :: "string list" where
  "User_fields = [''username'', ''email'', ''full_name'', ''disabled'', ''role'']"

definition response_model_User :: "pydict \<Rightarrow> pydict" where
  "response_model_User body = filter (\<lambda>kv. fst kv \<in> set User_fields) body"

section \<open>auth_service/main.py: authentication and the access guard\<close>

text \<open>
  The handlers receive the bearer token that \<open>oauth2_scheme\<close> extracted from the
  request, the clock reading \<open>utcnow\<close> and the collection.
\<close>

definition get_user :: "env \<Rightarrow> collection \<Rightarrow> string \<Rightarrow> error + UserInDB option" where
  "get_user cfg c uname =
     (let user_data = get_user_by_username c uname
      in if truthy_doc user_data
         then (case user_data of
                 None \<Rightarrow> Inr None
               | Some d \<Rightarrow>
                   (case UserInDB_parse cfg d of
                      Inl e \<Rightarrow> Inl e
                    | Inr user \<Rightarrow> Inr (Some user)))
         else Inr None)"

text \<open>\<open>authenticate_user\<close> returns the user or \<open>False\<close>; \<open>False\<close> is \<open>None\<close> here.\<close>

definition authenticate_user ::
  "env \<Rightarrow> collection \<Rightarrow> string \<Rightarrow> string \<Rightarrow> error + UserInDB option" where
  "authenticate_user cfg c uname pw =
     (case get_user cfg c uname of
        Inl e \<Rightarrow> Inl e
      | Inr None \<Rightarrow> Inr None
      | Inr (Some user) \<Rightarrow>
          if \<not> verify_password cfg pw (hashed_password user) then Inr None
          else Inr (Some user))"

text \<open>
  \<open>get_current_user\<close>. After the \<open>try\<close> block the subject is a string; the branch for
  an absent \<open>token_data.username\<close> cannot be reached and is closed with the same
  exception.
\<close>

definition get_current_user ::
  "env \<Rightarrow> datetime \<Rightarrow> collection \<Rightarrow> token \<Rightarrow> error + UserInDB" where
  "get_current_user cfg utcnow c tok =
     (case decode_token_data cfg utcnow tok of
        Inl e \<Rightarrow> Inl e
      | Inr token_data \<Rightarrow>
          (case td_username token_data of
             None \<Rightarrow> Inl credentials_exception
           | Some uname \<Rightarrow>
               (case get_user cfg c uname of
                  Inl e \<Rightarrow> Inl e
                | Inr None \<Rightarrow> Inl credentials_exception
                | Inr (Some user) \<Rightarrow> Inr user)))"

definition get_current_active_user ::
  "env \<Rightarrow> datetime \<Rightarrow> collection \<Rightarrow> token \<Rightarrow> error + UserInDB" where
  "get_current_active_user cfg utcnow c tok =
     (case get_current_user cfg utcnow c tok of
        Inl e \<Rightarrow> Inl e
      | Inr current_user \<Rightarrow>
          if disabled current_user = Some True
          then Inl (HTTPException 400 ''Inactive user'')
          else Inr current_user)"

definition get_admin_user ::
  "env \<Rightarrow> datetime \<Rightarrow> collection \<Rightarrow> token \<Rightarrow> error + UserInDB" where
  "get_admin_user cfg utcnow c tok =
     (case get_current_user cfg utcnow c tok of
        Inl e \<Rightarrow> Inl e
      | Inr current_user \<Rightarrow>
          if role current_user \<noteq> ''admin''
          then Inl (HTTPException 403 ''Not enough permissions'')
          else Inr current_user)"

text \<open>
  \<open>POST /token\<close>. The result is the \<open>access_token\<close> of the answer; its \<open>token_type\<close>
  is the constant \<open>"bearer"\<close>.
\<close>

definition login_for_access_token ::
  "env \<Rightarrow> datetime \<Rightarrow> collection \<Rightarrow> string \<Rightarrow> string \<Rightarrow> error + token" where
  "login_for_access_token cfg utcnow c form_username form_password =
     (case authenticate_user cfg c form_username form_password of
        Inl e \<Rightarrow> Inl e
      | Inr None \<Rightarrow> Inl (HTTPException 401 ''Incorrect username or password'')
      | Inr (Some user) \<Rightarrow>
          (let access_token_expires = timedelta_minutes (ACCESS_TOKEN_EXPIRE_MINUTES cfg)
           in create_access_token cfg utcnow
                [(''sub'', PStr (username user)), (''role'', PStr (role user))]
                (Some access_token_expires)))"

section \<open>auth_service/main.py: user management endpoints\<close>

text \<open>
  \<open>POST /users/\<close>. A result \<open>Inr body\<close> is the answer 201 whose body is the returned
  dictionary passed through the response model; \<open>Inl e\<close> is answered with
  \<open>http_status e\<close>. The dictionary comprehension runs over \<open>user_data\<close> as the
  repository left it.
\<close>

definition create_user :: "env \<Rightarrow> collection \<Rightarrow> UserCreate \<Rightarrow> collection \<times> (error + pydict)" where
  "create_user cfg c user =
     (let existing_user = get_user_by_username c (username user)
      in if truthy_doc existing_user
         then (c, Inl (HTTPException 400 ''Username already registered''))
         else if (case email user of None \<Rightarrow> False | Some e \<Rightarrow> e \<noteq> [])
                 \<and> truthy_doc (get_user_by_email c (py_optional_str (email user)))
         then (c, Inl (HTTPException 400 ''Email already registered''))
         else (let user_data = UserCreate_dict user
               in case UserRepository_create_user cfg c user_data of
                    (c', Inl e) \<Rightarrow> (c', Inl e)
                  | (c', Inr (user_data, inserted_id)) \<Rightarrow>
                      (c', Inr (response_model_User
                                  (filter (\<lambda>kv. fst kv \<noteq> ''password'') user_data)))))"

text \<open>
  The comprehension of both update handlers, which keeps the fields of
  \<open>user_update.dict()\<close> that are not \<open>None\<close>.
\<close>

definition filter_none :: "pydict \<Rightarrow> pydict" where
  "filter_none d = filter (\<lambda>kv. snd kv \<noteq> PNone) d"

text \<open>\<open>PUT /users/me/\<close>.\<close>

definition update_user_me ::
  "env \<Rightarrow> datetime \<Rightarrow> collection \<Rightarrow> token \<Rightarrow> UserUpdate
     \<Rightarrow> collection \<times> (error + UserInDB option)" where
  "update_user_me cfg utcnow c tok user_update =
     (case get_current_active_user cfg utcnow c tok of
        Inl e \<Rightarrow> (c, Inl e)
      | Inr current_user \<Rightarrow>
          (let update_data = filter_none (UserUpdate_dict user_update)
           in if update_data \<noteq> []
              then if dict_contains ''email'' update_data
                      \<and> dict_get update_data ''email'' \<noteq> py_optional_str (email current_user)
                      \<and> truthy_doc (get_user_by_email c (dict_get update_data ''email''))
                   then (c, Inl (HTTPException 400 ''Email already registered''))
                   else (case UserRepository_update_user cfg c (username current_user)
                                update_data of
                           (c', Inl e) \<Rightarrow> (c', Inl e)
                         | (c', Inr success) \<Rightarrow>
                             if \<not> success
                             then (c', Inl (HTTPException 500 ''Failed to update user''))
                             else (c', get_user cfg c' (username current_user)))
              else (c, get_user cfg c (username current_user))))"

text \<open>
  The email test of \<open>admin_update_user\<close>: \<open>None\<close> lets the update go on, \<open>Some e\<close> is the
  exception raised. \<open>user_data["email"]\<close> and \<open>existing_email["username"]\<close> are plain
  subscripts and raise \<open>KeyError\<close> on a document without the key.
\<close>

definition admin_email_check :: "collection \<Rightarrow> string \<Rightarrow> pydict \<Rightarrow> pydict \<Rightarrow> error option" where
  "admin_email_check c uname user_data update_data =
     (if dict_contains ''email'' update_data
      then (case dict_item user_data ''email'' of
              Inl e \<Rightarrow> Some e
            | Inr stored_email \<Rightarrow>
                if dict_get update_data ''email'' \<noteq> stored_email
                then (case get_user_by_email c (dict_get update_data ''email'') of
                        None \<Rightarrow> None
                      | Some existing_email \<Rightarrow>
                          if existing_email \<noteq> []
                          then (case dict_item existing_email ''username'' of
                                  Inl e \<Rightarrow> Some e
                                | Inr existing_username \<Rightarrow>
                                    if existing_username \<noteq> PStr uname
                                    then Some (HTTPException 400 ''Email already registered'')
                                    else None)
                          else None)
                else None)
      else None)"

text \<open>\<open>PUT /admin/users/{username}\<close>.\<close>

definition admin_update_user ::
  "env \<Rightarrow> datetime \<Rightarrow> collection \<Rightarrow> token \<Rightarrow> string \<Rightarrow> UserUpdate
     \<Rightarrow> collection \<times> (error + UserInDB option)" where
  "admin_update_user cfg utcnow c tok uname user_update =
     (case get_admin_user cfg utcnow c tok of
        Inl e \<Rightarrow> (c, Inl e)
      | Inr current_user \<Rightarrow>
          (case get_user_by_username c uname of
             None \<Rightarrow> (c, Inl (HTTPException 404 ''User not found''))
           | Some user_data \<Rightarrow>
               if user_data = [] then (c, Inl (HTTPException 404 ''User not found''))
               else (let update_data = filter_none (UserUpdate_dict user_update)
                     in if update_data \<noteq> []
                        then (case admin_email_check c uname user_data update_data of
                                Some e \<Rightarrow> (c, Inl e)
                              | None \<Rightarrow>
                                  (case UserRepository_update_user cfg c uname update_data of
                                     (c', Inl e) \<Rightarrow> (c', Inl e)
                                   | (c', Inr success) \<Rightarrow>
                                       if \<not> success
                                       then (c', Inl (HTTPException 500 ''Failed to update user''))
                                       else (c', get_user cfg c' uname)))
                        else (c, get_user cfg c uname))))"

text \<open>\<open>DELETE /admin/users/{username}\<close>; success is the empty answer 204.\<close>

definition delete_user ::
  "env \<Rightarrow> datetime \<Rightarrow> collection \<Rightarrow> token \<Rightarrow> string \<Rightarrow> collection \<times> (error + unit)" where
  "delete_user cfg utcnow c tok uname =
     (case get_admin_user cfg utcnow c tok of
        Inl e \<Rightarrow> (c, Inl e)
      | Inr current_user \<Rightarrow>
          if uname = username current_user
          then (c, Inl (HTTPException 400 ''Cannot delete your own account''))
          else (case UserRepository_delete_user c uname of
                  (c', success) \<Rightarrow>
                    if \<not> success then (c', Inl (HTTPException 404 ''User not found''))
                    else (c', Inr ())))"

text \<open>The startup hook: the indexes, then the administrator.\<close>

definition startup_db_client ::
  "env \<Rightarrow> collection \<Rightarrow> string \<Rightarrow> string \<Rightarrow> string \<Rightarrow> collection \<times> (error + bool)" where
  "startup_db_client cfg c admin_username admin_password admin_email =
     (case create_index c of
        (c', Inl e) \<Rightarrow> (c', Inl e)
      | (c', Inr u) \<Rightarrow> init_admin_user cfg c' admin_username admin_password admin_email)"

section \<open>Notions used in the statements\<close>

text \<open>
  The registered claims other than \<open>exp\<close> and \<open>sub\<close> pass the checks of \<open>jwt.decode\<close>
  at a given time: \<open>iat\<close> is absent or converts to an integer, \<open>nbf\<close> is absent or an
  integer that is not in the future, \<open>jti\<close> is absent or a string, and there is neither
  an \<open>aud\<close> nor an \<open>at_hash\<close> claim.
\<close>

definition other_registered_claims_pass :: "datetime \<Rightarrow> pydict \<Rightarrow> bool" where
  "other_registered_claims_pass utcnow claims =
     (validate_iat claims = None \<and> validate_nbf utcnow claims = None
      \<and> validate_aud claims = None \<and> validate_jti claims = None
      \<and> validate_at_hash claims = None)"

text \<open>
  A collection holds no plaintext password when no document has a \<open>password\<close> key.
  The collections the service can reach are those that the repository's operations
  produce from a collection without documents; an operation that raises leaves the
  collection it returns, which is the one it was given. \<open>admin_document\<close> is the
  dictionary that \<open>init_admin_user\<close> hands to \<open>insert_one\<close>, after hashing.
\<close>

definition no_plaintext_password :: "collection \<Rightarrow> bool" where
  "no_plaintext_password c = list_all (\<lambda>d. map_of d ''password'' = None) (docs c)"

inductive reachable :: "collection \<Rightarrow> bool" where
  fresh: "docs c = [] \<Longrightarrow> reachable c"
| created: "reachable c \<Longrightarrow> reachable (fst (UserRepository_create_user cfg c user_data))"
| updated: "reachable c \<Longrightarrow> reachable (fst (UserRepository_update_user cfg c uname user_data))"
| deleted: "reachable c \<Longrightarrow> reachable (fst (UserRepository_delete_user c uname))"
| indexed: "reachable c \<Longrightarrow> reachable (fst (create_index c))"

definition admin_document :: "env \<Rightarrow> string \<Rightarrow> string \<Rightarrow> string \<Rightarrow> pydict" where
  "admin_document cfg u p e =
     [(''username'', PStr u), (''email'', PStr e), (''full_name'', PStr ''Admin User''),
      (''role'', PStr ''admin''), (''disabled'', PBool False),
      (''hashed_password'', PStr (pwd_hash cfg p))]"

section \<open>A development deployment\<close>

text \<open>
  The values the worked examples run on: the configuration with the defaults of
  auth_service/main.py and stand-ins for the three library parameters, tokens signed
  with that configuration, and small collections.
\<close>

definition example_env :: env where
  "example_env =
     \<lparr>SECRET_KEY = ''YOUR_SECRET_KEY_HERE'', ALGORITHM = ''HS256'',
      ACCESS_TOKEN_EXPIRE_MINUTES = 30,
      pwd_hash = (\<lambda>p. ''$2b$'' @ p),
      pwd_verify = (\<lambda>p h. h = ''$2b$'' @ p),
      EmailStr = (\<lambda>s. CHR ''@'' \<in> set s)\<rparr>"

definition alice_user_token :: token where
  "alice_user_token =
     Signed ''HS256'' ''YOUR_SECRET_KEY_HERE''
       [(''sub'', PStr ''alice''), (''role'', PStr ''user''), (''exp'', PInt 900)]"

definition stale_admin_token :: token where
  "stale_admin_token =
     Signed ''HS256'' ''YOUR_SECRET_KEY_HERE''
       [(''sub'', PStr ''alice''), (''role'', PStr ''admin''), (''exp'', PInt 1800)]"


definition audience_token :: token where
  "audience_token =
     Signed ''HS256'' ''YOUR_SECRET_KEY_HERE''
       [(''sub'', PStr ''alice''), (''exp'', PInt 900), (''aud'', PStr ''cesizen'')]"

definition not_yet_valid_token :: token where
  "not_yet_valid_token =
     Signed ''HS256'' ''YOUR_SECRET_KEY_HERE''
       [(''sub'', PStr ''alice''), (''exp'', PInt 900), (''nbf'', PInt 600)]"

definition alice_record :: UserInDB where
  "alice_record =
     \<lparr>username = ''alice'', email = None, full_name = None, disabled = Some False,
      role = ''user'', hashed_password = ''$2b$pw123''\<rparr>"

definition alice_only :: collection where
  "alice_only =
     \<lparr>docs = [[(''username'', PStr ''alice''), (''email'', PNone), (''full_name'', PNone),
               (''disabled'', PBool False), (''role'', PStr ''user''),
               (''hashed_password'', PStr ''$2b$pw123''), (''_id'', PObjectId 0)]],
      unique_indexes = [''email'', ''username''], oid_counter = 1\<rparr>"

definition empty_collection :: collection where
  "empty_collection = \<lparr>docs = [], unique_indexes = [], oid_counter = 0\<rparr>"

definition admin_doc :: pydict where
  "admin_doc =
     [(''username'', PStr ''admin''), (''email'', PStr ''admin@example.com''),
      (''full_name'', PStr ''Admin User''), (''role'', PStr ''admin''),
      (''disabled'', PBool False), (''hashed_password'', PStr ''$2b$admin''),
      (''_id'', PObjectId 0)]"

definition alice_doc :: pydict where
  "alice_doc =
     [(''username'', PStr ''alice''), (''email'', PNone), (''full_name'', PNone),
      (''disabled'', PBool False), (''role'', PStr ''user''),
      (''hashed_password'', PStr ''$2b$pw123''), (''_id'', PObjectId 1)]"

definition admin_only :: collection where
  "admin_only = \<lparr>docs = [admin_doc], unique_indexes = [''email'', ''username''], oid_counter = 1\<rparr>"

definition admin_and_alice :: collection where
  "admin_and_alice =
     \<lparr>docs = [admin_doc, alice_doc], unique_indexes = [''email'', ''username''], oid_counter = 2\<rparr>"

definition admin_record :: UserInDB where
  "admin_record =
     \<lparr>username = ''admin'', email = Some ''admin@example.com'', full_name = Some ''Admin User'',
      disabled = Some False, role = ''admin'', hashed_password = ''$2b$admin''\<rparr>"

definition admin_token :: token where
  "admin_token =
     Signed ''HS256'' ''YOUR_SECRET_KEY_HERE''
       [(''sub'', PStr ''admin''), (''role'', PStr ''admin''), (''exp'', PInt 1800)]"


definition alice_registered :: collection where
  "alice_registered =
     \<lparr>docs = [[(''username'', PStr ''alice''), (''hashed_password'', PStr ''$2b$pw123''),
               (''role'', PStr ''user''), (''disabled'', PBool False), (''_id'', PObjectId 0)]],
      unique_indexes = [], oid_counter = 1\<rparr>"

definition alice_rehashed :: collection where
  "alice_rehashed =
     \<lparr>docs = [[(''username'', PStr ''alice''), (''hashed_password'', PStr ''$2b$pw789''),
               (''role'', PStr ''user''), (''disabled'', PBool False), (''_id'', PObjectId 0)]],
      unique_indexes = [], oid_counter = 1\<rparr>"

definition unchanged_update :: UserUpdate where
  "unchanged_update =
     \<lparr>upd_email = None, upd_full_name = None, upd_password = None,
      upd_disabled = Some False, upd_role = Some ''user''\<rparr>"

definition alice_registration :: UserCreate where
  "alice_registration =
     \<lparr>username = ''alice'', email = None, full_name = None, disabled = Some False,
      role = ''user'', password = ''pw123''\<rparr>"

definition bob_registration :: UserCreate where
  "bob_registration =
     \<lparr>username = ''bob'', email = None, full_name = None, disabled = Some False,
      role = ''user'', password = ''pw456''\<rparr>"

section \<open>Issuing a token\<close>

lemma list_all_update:
  "list_all P al \<Longrightarrow> P (k, v) \<Longrightarrow> list_all P (AList.update k v al)"
  by (induction al) auto

lemma update_twice: "AList.update k v (AList.update k w al) = AList.update k v al"
  by (induction al) auto

lemma to_intdate_unchanged:
  "\<forall>t. map_of claims k \<noteq> Some (PDatetime t) \<Longrightarrow> to_intdate claims k = claims"
  by (simp add: to_intdate_def split: option.splits pyval.splits)

lemma serializable_lookup:
  "list_all (\<lambda>kv. json_serializable (snd kv)) al \<Longrightarrow> map_of al k = Some v \<Longrightarrow> json_serializable v"
  by (induction al) (auto split: if_splits)

lemma jwt_encode_exp:
  assumes "list_all (\<lambda>kv. json_serializable (snd kv)) data"
  shows "jwt_encode (AList.update ''exp'' (PDatetime t) data) key alg =
           Inr (Signed alg key (AList.update ''exp'' (PInt (timegm_utctimetuple t)) data))"
proof -
  let ?d1 = "AList.update ''exp'' (PInt (timegm_utctimetuple t)) data"
  have s1: "to_intdate (AList.update ''exp'' (PDatetime t) data) ''exp'' = ?d1"
    by (simp add: to_intdate_def update_conv' update_twice)
  have ser: "list_all (\<lambda>kv. json_serializable (snd kv)) ?d1"
    using assms by (simp add: list_all_update)
  have nodt: "\<forall>u. map_of ?d1 k \<noteq> Some (PDatetime u)" for k
    using serializable_lookup [OF ser] by fastforce
  have s2: "to_intdate ?d1 ''iat'' = ?d1" and s3: "to_intdate ?d1 ''nbf'' = ?d1"
    using nodt by (simp_all add: to_intdate_unchanged)
  show ?thesis
    using ser by (simp add: jwt_encode_def s1 s2 s3)
qed

lemma create_access_token_default:
  assumes "list_all (\<lambda>kv. json_serializable (snd kv)) data"
  shows "create_access_token cfg utcnow data None =
           Inr (Signed (ALGORITHM cfg) (SECRET_KEY cfg)
                  (AList.update ''exp''
                     (PInt (timegm_utctimetuple (utcnow + timedelta_minutes 15))) data))"
  using jwt_encode_exp [OF assms] by (simp add: create_access_token_def)

lemma create_access_token_delta:
  assumes "list_all (\<lambda>kv. json_serializable (snd kv)) data" and "delta \<noteq> 0"
    and "datetime_min \<le> utcnow + delta" and "utcnow + delta \<le> datetime_max"
  shows "create_access_token cfg utcnow data (Some delta) =
           Inr (Signed (ALGORITHM cfg) (SECRET_KEY cfg)
                  (AList.update ''exp'' (PInt (timegm_utctimetuple (utcnow + delta))) data))"
  using jwt_encode_exp [OF assms(1)] assms(2,3,4)
  by (simp add: create_access_token_def datetime_add_def)

lemma create_access_token_overflow:
  assumes "delta \<noteq> 0" and "datetime_max < utcnow + delta"
  shows "create_access_token cfg utcnow data (Some delta) = Inl OverflowError"
  using assms by (simp add: create_access_token_def datetime_add_def)

section \<open>Validating a token\<close>



lemma login_claims_pass [simp]:
  "other_registered_claims_pass t [(''sub'', a), (''role'', b), (''exp'', c)]"
  by (simp add: other_registered_claims_pass_def validate_iat_def validate_nbf_def
      validate_aud_def validate_jti_def validate_at_hash_def)

lemma jwt_decode_valid:
  assumes "map_of claims ''exp'' = Some (PInt e)" and "timegm_utctimetuple t \<le> e"
    and "map_of claims ''sub'' = Some (PStr u)"
    and "other_registered_claims_pass t claims"
  shows "jwt_decode t (Signed alg key claims) key [alg] = Inr claims"
  using assms
  by (simp add: jwt_decode_def validate_claims_def validate_exp_def validate_sub_def
      int_claim_def other_registered_claims_pass_def)


lemma decode_token_data_valid:
  assumes "map_of claims ''exp'' = Some (PInt e)" and "timegm_utctimetuple t \<le> e"
    and "map_of claims ''sub'' = Some (PStr u)"
    and "dict_get_default claims ''role'' (PStr ''user'') = PStr r"
    and "other_registered_claims_pass t claims"
  shows "decode_token_data cfg t (Signed (ALGORITHM cfg) (SECRET_KEY cfg) claims) =
           Inr \<lparr>td_username = Some u, td_role = Some r\<rparr>"
  using assms(3,4) jwt_decode_valid [OF assms(1,2,3,5)]
  by (simp add: decode_token_data_def dict_get_def)


lemma info_get_current_user_valid:
  assumes "map_of claims ''exp'' = Some (PInt e)" and "timegm_utctimetuple t \<le> e"
    and "map_of claims ''sub'' = Some (PStr u)"
    and "other_registered_claims_pass t claims"
  shows "info_get_current_user t (Signed info_ALGORITHM info_SECRET_KEY claims) =
           Inr [(''username'', PStr u), (''role'', dict_get_default claims ''role'' (PStr ''user''))]"
  using assms(3) jwt_decode_valid [OF assms]
  by (simp add: info_get_current_user_def dict_get_def)



lemma get_current_user_after_decode:
  assumes "decode_token_data cfg t tok = Inr \<lparr>td_username = Some u, td_role = r\<rparr>"
  shows "get_current_user cfg t c tok =
           (case get_user cfg c u of
              Inl e \<Rightarrow> Inl e
            | Inr None \<Rightarrow> Inl credentials_exception
            | Inr (Some user) \<Rightarrow> Inr user)"
  using assms by (simp add: get_current_user_def)

section \<open>The user behind a token\<close>

lemma get_user_SomeD:
  assumes "get_user cfg c u = Inr (Some user)"
  shows "\<exists>d. get_user_by_username c u = Some d \<and> UserInDB_parse cfg d = Inr user
             \<and> map_of d ''username'' = Some (PStr u)"
proof -
  from assms obtain d where d: "get_user_by_username c u = Some d"
    and p: "UserInDB_parse cfg d = Inr user"
    by (auto simp add: get_user_def Let_def split: option.splits if_splits sum.splits)
  from d have "map_of d ''username'' = Some (PStr u)"
    by (auto simp add: get_user_by_username_def find_one_def find_Some_iff)
  with d p show ?thesis by blast
qed

lemma UserInDB_parse_fields:
  assumes "UserInDB_parse cfg d = Inr user"
  shows "required_str (map_of d ''username'') = Inr (username user)"
    and "optional_email_field cfg (map_of d ''email'') = Inr (email user)"
    and "disabled_field (map_of d ''disabled'') = Inr (disabled user)"
    and "role_field (map_of d ''role'') = Inr (role user)"
    and "required_str (map_of d ''hashed_password'') = Inr (hashed_password user)"
  using assms by (auto simp add: UserInDB_parse_def split: sum.splits)

lemma get_user_username:
  assumes "get_user cfg c u = Inr (Some user)"
  shows "username user = u"
proof -
  from get_user_SomeD [OF assms] obtain d where p: "UserInDB_parse cfg d = Inr user"
    and un: "map_of d ''username'' = Some (PStr u)" by blast
  from UserInDB_parse_fields(1) [OF p] un show ?thesis by simp
qed

lemma get_current_user_InrD:
  assumes "get_current_user cfg t c tok = Inr user"
  shows "get_user cfg c (username user) = Inr (Some user)"
proof -
  from assms obtain u where "get_user cfg c u = Inr (Some user)"
    by (auto simp add: get_current_user_def split: sum.splits option.splits)
  then show ?thesis using get_user_username by blast
qed

lemma get_admin_user_iff:
  "get_admin_user cfg t c tok = Inr user \<longleftrightarrow>
     get_current_user cfg t c tok = Inr user \<and> role user = ''admin''"
  by (auto simp add: get_admin_user_def split: sum.splits)

lemma info_get_admin_user_iff:
  "info_get_admin_user t tok = Inr cu \<longleftrightarrow>
     info_get_current_user t tok = Inr cu \<and> dict_get cu ''role'' = PStr ''admin''"
  by (auto simp add: info_get_admin_user_def split: sum.splits)

lemma info_get_current_user_role:
  assumes "info_get_current_user t (Signed a k claims) = Inr cu"
  shows "dict_get cu ''role'' = dict_get_default claims ''role'' (PStr ''user'')"
proof -
  from assms have "jwt_decode t (Signed a k claims) info_SECRET_KEY [info_ALGORITHM] = Inr claims"
    by (auto simp add: info_get_current_user_def jwt_decode_def split: sum.splits if_splits option.splits)
  with assms show ?thesis
    by (auto simp add: info_get_current_user_def dict_get_def Let_def split: if_splits)
qed

lemma get_user_alice: "get_user example_env alice_only ''alice'' = Inr (Some alice_record)"
  by (simp add: get_user_def get_user_by_username_def find_one_def alice_only_def
      UserInDB_parse_def alice_record_def)

lemma decode_alice_user_token:
  "decode_token_data example_env 0 alice_user_token
     = Inr \<lparr>td_username = Some ''alice'', td_role = Some ''user''\<rparr>"
  unfolding alice_user_token_def
  using decode_token_data_valid [of "[(''sub'', PStr ''alice''), (''role'', PStr ''user''), (''exp'', PInt 900)]"
      900 0 "''alice''" "''user''" example_env]
  by (simp add: example_env_def dict_get_default_def timegm_utctimetuple_def)

lemma get_current_user_alice:
  "get_current_user example_env 0 alice_only alice_user_token = Inr alice_record"
  by (simp add: get_current_user_after_decode [OF decode_alice_user_token] get_user_alice)

section \<open>Claims about tokens\<close>

text \<open>
  C1, as the specification states it: for every subject, role and positive
  time-to-live, validating the token issued for them, strictly before the time-to-live
  has elapsed, succeeds and returns exactly that subject and that role. In
  auth_service it does not. A token issued for \<open>alice\<close> with the role \<open>admin\<close> and
  presented in time makes \<open>get_current_user\<close> return the stored record of \<open>alice\<close>,
  whose role is \<open>user\<close>; on a collection without \<open>alice\<close> the same token is refused;
  and with a time-to-live of three million days no token is issued at all, because the
  expiry is not a \<open>datetime\<close>.
\<close>

theorem round_trip_fails_in_auth_service:
  "create_access_token example_env 0 [(''sub'', PStr ''alice''), (''role'', PStr ''admin'')]
     (Some 1800000000) = Inr stale_admin_token
   \<and> (1799999999::int) < 0 + 1800000000
   \<and> get_current_user example_env 1799999999 alice_only stale_admin_token = Inr alice_record
   \<and> role alice_record = ''user''
   \<and> get_current_user example_env 1799999999 empty_collection stale_admin_token
       = Inl credentials_exception
   \<and> create_access_token example_env 0 [(''sub'', PStr ''alice''), (''role'', PStr ''admin'')]
         (Some 259200000000000000) = Inl OverflowError"
proof -
  let ?claims = "[(''sub'', PStr ''alice''), (''role'', PStr ''admin''), (''exp'', PInt 1800)]"
  have issue: "create_access_token example_env 0
                 [(''sub'', PStr ''alice''), (''role'', PStr ''admin'')] (Some 1800000000)
               = Inr stale_admin_token"
    using create_access_token_delta
            [of "[(''sub'', PStr ''alice''), (''role'', PStr ''admin'')]" 1800000000 0 example_env]
    by (simp add: datetime_min_def datetime_max_def timegm_utctimetuple_def
          stale_admin_token_def example_env_def)
  have dec: "decode_token_data example_env 1799999999 stale_admin_token
               = Inr \<lparr>td_username = Some ''alice'', td_role = Some ''admin''\<rparr>"
    unfolding stale_admin_token_def
    using decode_token_data_valid [of ?claims 1800 1799999999 "''alice''" "''admin''" example_env]
    by (simp add: example_env_def dict_get_default_def timegm_utctimetuple_def)
  have stored: "get_current_user example_env 1799999999 alice_only stale_admin_token
                  = Inr alice_record"
    by (simp add: get_current_user_after_decode [OF dec] get_user_alice)
  have absent: "get_current_user example_env 1799999999 empty_collection stale_admin_token
                  = Inl credentials_exception"
    by (simp add: get_current_user_after_decode [OF dec] get_user_def get_user_by_username_def
          find_one_def empty_collection_def)
  have over: "create_access_token example_env 0
                [(''sub'', PStr ''alice''), (''role'', PStr ''admin'')]
                (Some 259200000000000000) = Inl OverflowError"
    by (rule create_access_token_overflow) (simp_all add: datetime_max_def)
  show ?thesis
    using issue stored absent over by (simp add: alice_record_def)
qed



text \<open>
  C3, as the specification states it: every role check compares the role embedded in
  the token. auth_service does not: a token that carries the role \<open>admin\<close> for a user
  whose stored role is \<open>user\<close> is refused by its \<open>get_admin_user\<close>.
\<close>

theorem auth_role_check_ignores_token_role:
  "decode_token_data example_env 0 stale_admin_token
     = Inr \<lparr>td_username = Some ''alice'', td_role = Some ''admin''\<rparr>
   \<and> get_admin_user example_env 0 alice_only stale_admin_token
       = Inl (HTTPException 403 ''Not enough permissions'')"
proof -
  have dec: "decode_token_data example_env 0 stale_admin_token
               = Inr \<lparr>td_username = Some ''alice'', td_role = Some ''admin''\<rparr>"
    unfolding stale_admin_token_def
    using decode_token_data_valid [of "[(''sub'', PStr ''alice''), (''role'', PStr ''admin''), (''exp'', PInt 1800)]"
        1800 0 "''alice''" "''admin''" example_env]
    by (simp add: example_env_def dict_get_default_def timegm_utctimetuple_def)
  have "get_current_user example_env 0 alice_only stale_admin_token = Inr alice_record"
    by (simp add: get_current_user_after_decode [OF dec] get_user_alice)
  then show ?thesis
    using dec by (simp add: get_admin_user_def alice_record_def)
qed

text \<open>
  C3, amended: info_service's \<open>get_admin_user\<close> compares the role claim of the token
  (\<open>"user"\<close> when the claim is absent); auth_service's \<open>get_admin_user\<close> compares the
  role of the record that \<open>get_current_user\<close> read from the collection at request time.
\<close>

theorem role_check_source:
  "(info_get_admin_user t tok = Inr cu \<longleftrightarrow>
      info_get_current_user t tok = Inr cu \<and> dict_get cu ''role'' = PStr ''admin'')
   \<and> (info_get_current_user t (Signed a k claims) = Inr cu' \<longrightarrow>
        dict_get cu' ''role'' = dict_get_default claims ''role'' (PStr ''user''))
   \<and> (get_admin_user cfg t c tok = Inr user \<longleftrightarrow>
        get_current_user cfg t c tok = Inr user \<and> role user = ''admin'')
   \<and> (get_current_user cfg t c tok' = Inr user' \<longrightarrow>
        (\<exists>d. get_user_by_username c (username user') = Some d
            \<and> UserInDB_parse cfg d = Inr user'
            \<and> role_field (map_of d ''role'') = Inr (role user')))"
proof -
  have "\<exists>d. get_user_by_username c (username user') = Some d
            \<and> UserInDB_parse cfg d = Inr user'
            \<and> role_field (map_of d ''role'') = Inr (role user')"
    if "get_current_user cfg t c tok' = Inr user'"
    using get_user_SomeD [OF get_current_user_InrD [OF that]] UserInDB_parse_fields(4)
    by blast
  then show ?thesis
    using info_get_admin_user_iff get_admin_user_iff info_get_current_user_role by blast
qed

theorem role_check_source_witness:
  "info_get_current_user 0 alice_user_token
     = Inr [(''username'', PStr ''alice''), (''role'', PStr ''user'')]
   \<and> dict_get [(''username'', PStr ''alice''), (''role'', PStr ''user'')] ''role''
       = dict_get_default [(''sub'', PStr ''alice''), (''role'', PStr ''user''), (''exp'', PInt 900)]
           ''role'' (PStr ''user'')
   \<and> get_current_user example_env 0 alice_only alice_user_token = Inr alice_record
   \<and> (\<exists>d. get_user_by_username alice_only (username alice_record) = Some d
          \<and> UserInDB_parse example_env d = Inr alice_record
          \<and> role_field (map_of d ''role'') = Inr (role alice_record))"
proof -
  have info: "info_get_current_user 0 alice_user_token
                = Inr [(''username'', PStr ''alice''), (''role'', PStr ''user'')]"
    unfolding alice_user_token_def
    using info_get_current_user_valid [of "[(''sub'', PStr ''alice''), (''role'', PStr ''user''), (''exp'', PInt 900)]"
        900 0 "''alice''"]
    by (simp add: info_ALGORITHM_def info_SECRET_KEY_def dict_get_default_def timegm_utctimetuple_def)
  show ?thesis
    using info get_current_user_alice
      role_check_source [of 0 alice_user_token _ "''HS256''" "''YOUR_SECRET_KEY_HERE''"
        "[(''sub'', PStr ''alice''), (''role'', PStr ''user''), (''exp'', PInt 900)]"
        "[(''username'', PStr ''alice''), (''role'', PStr ''user'')]"
        example_env alice_only _ alice_user_token alice_record]
    by (simp add: alice_user_token_def)
qed

text \<open>
  C2, as the specification states it: without an \<open>expires_delta\<close> the issuer sets the
  expiry to now plus the configured \<open>ACCESS_TOKEN_EXPIRE_MINUTES\<close>. With the default
  configuration of 30 minutes, a token issued at time 0 without \<open>expires_delta\<close>
  expires at second 900, not at second 1800.
\<close>

theorem default_expiry_is_not_the_configured_ttl:
  "ACCESS_TOKEN_EXPIRE_MINUTES example_env = 30
   \<and> timegm_utctimetuple (0 + timedelta_minutes (ACCESS_TOKEN_EXPIRE_MINUTES example_env)) = 1800
   \<and> create_access_token example_env 0 [(''sub'', PStr ''alice''), (''role'', PStr ''user'')] None
       = Inr (Signed ''HS256'' ''YOUR_SECRET_KEY_HERE''
               [(''sub'', PStr ''alice''), (''role'', PStr ''user''), (''exp'', PInt 900)])"
  using create_access_token_default
          [of "[(''sub'', PStr ''alice''), (''role'', PStr ''user'')]" example_env 0]
  by (simp add: example_env_def timegm_utctimetuple_def timedelta_minutes_def)

text \<open>
  C2, amended: when the caller passes no \<open>expires_delta\<close>, or a zero one,
  \<open>create_access_token\<close> sets the expiry to now plus 15 minutes, a constant of the
  function that its docstring names, whatever \<open>ACCESS_TOKEN_EXPIRE_MINUTES\<close> is; the
  token carries every claim of \<open>data\<close> and that expiry in whole seconds. (The login
  endpoint is the caller that passes \<open>ACCESS_TOKEN_EXPIRE_MINUTES\<close> as \<open>expires_delta\<close>.)
\<close>

theorem default_expiry_is_fifteen_minutes:
  assumes "list_all (\<lambda>kv. json_serializable (snd kv)) data"
  shows "create_access_token cfg utcnow data None
           = Inr (Signed (ALGORITHM cfg) (SECRET_KEY cfg)
                    (AList.update ''exp''
                       (PInt (timegm_utctimetuple (utcnow + timedelta_minutes 15))) data))
         \<and> create_access_token cfg utcnow data (Some 0)
             = create_access_token cfg utcnow data None"
  using create_access_token_default [OF assms]
  by (simp add: create_access_token_def)

theorem default_expiry_is_fifteen_minutes_witness:
  "list_all (\<lambda>kv. json_serializable (snd kv)) [(''sub'', PStr ''alice''), (''role'', PStr ''user'')]
   \<and> create_access_token example_env 0 [(''sub'', PStr ''alice''), (''role'', PStr ''user'')] None
       = Inr (Signed ''HS256'' ''YOUR_SECRET_KEY_HERE''
               [(''sub'', PStr ''alice''), (''role'', PStr ''user''),
                (''exp'', PInt (timegm_utctimetuple (0 + timedelta_minutes 15)))])"
  using default_expiry_is_fifteen_minutes
          [of "[(''sub'', PStr ''alice''), (''role'', PStr ''user'')]" example_env 0]
  by (simp add: example_env_def)

lemma login_passes_configured_ttl:
  assumes "authenticate_user cfg c form_username form_password = Inr (Some user)"
  shows "login_for_access_token cfg utcnow c form_username form_password
           = create_access_token cfg utcnow
               [(''sub'', PStr (username user)), (''role'', PStr (role user))]
               (Some (timedelta_minutes (ACCESS_TOKEN_EXPIRE_MINUTES cfg)))"
  using assms by (simp add: login_for_access_token_def)




text \<open>
  C9, as the specification states it: every token with a valid signature, an unexpired
  \<open>exp\<close> and a subject that names an existing user, but no \<open>role\<close> claim, is accepted.
  A token of that kind that also carries an \<open>aud\<close> claim, or an \<open>nbf\<close> claim that lies
  in the future, is refused by \<open>jwt.decode\<close>, and all three services answer 401.
\<close>

theorem roleless_token_refused_for_other_claims:
  "map_of [(''sub'', PStr ''alice''), (''exp'', PInt 900), (''aud'', PStr ''cesizen'')] ''role'' = None
   \<and> map_of [(''sub'', PStr ''alice''), (''exp'', PInt 900), (''nbf'', PInt 600)] ''role'' = None
   \<and> timegm_utctimetuple 0 \<le> 900
   \<and> get_user example_env alice_only ''alice'' = Inr (Some alice_record)
   \<and> decode_token_data example_env 0 audience_token = Inl credentials_exception
   \<and> get_current_user example_env 0 alice_only audience_token = Inl credentials_exception
   \<and> info_get_current_user 0 audience_token = Inl credentials_exception
   \<and> user_get_current_user None 0 audience_token = Inl credentials_exception
   \<and> decode_token_data example_env 0 not_yet_valid_token = Inl credentials_exception
   \<and> get_current_user example_env 0 alice_only not_yet_valid_token = Inl credentials_exception
   \<and> info_get_current_user 0 not_yet_valid_token = Inl credentials_exception
   \<and> user_get_current_user None 0 not_yet_valid_token = Inl credentials_exception
   \<and> http_status credentials_exception = 401"
proof -
  have aud: "jwt_decode 0 audience_token ''YOUR_SECRET_KEY_HERE'' [''HS256''] = Inl JWTClaimsError"
    by (simp add: audience_token_def jwt_decode_def validate_claims_def validate_iat_def
        validate_nbf_def validate_exp_def validate_aud_def int_claim_def timegm_utctimetuple_def)
  have nbf: "jwt_decode 0 not_yet_valid_token ''YOUR_SECRET_KEY_HERE'' [''HS256'']
               = Inl JWTClaimsError"
    by (simp add: not_yet_valid_token_def jwt_decode_def validate_claims_def validate_iat_def
        validate_nbf_def int_claim_def timegm_utctimetuple_def)
  have d1: "decode_token_data example_env 0 audience_token = Inl credentials_exception"
    and d2: "decode_token_data example_env 0 not_yet_valid_token = Inl credentials_exception"
    using aud nbf by (simp_all add: decode_token_data_def example_env_def)
  have g1: "get_current_user example_env 0 alice_only audience_token = Inl credentials_exception"
    and g2: "get_current_user example_env 0 alice_only not_yet_valid_token
               = Inl credentials_exception"
    using d1 d2 by (simp_all add: get_current_user_def)
  have i1: "info_get_current_user 0 audience_token = Inl credentials_exception"
    and i2: "info_get_current_user 0 not_yet_valid_token = Inl credentials_exception"
    using aud nbf
    by (simp_all add: info_get_current_user_def info_SECRET_KEY_def info_ALGORITHM_def)
  have u1: "user_get_current_user None 0 audience_token = Inl credentials_exception"
    and u2: "user_get_current_user None 0 not_yet_valid_token = Inl credentials_exception"
    using aud nbf
    by (simp_all add: user_get_current_user_def user_SECRET_KEY_def user_ALGORITHM_def)
  show ?thesis
    using get_user_alice d1 d2 g1 g2 i1 i2 u1 u2
    by (simp add: timegm_utctimetuple_def credentials_exception_def)
qed



section \<open>Claims about the collection and the endpoints\<close>

subsection \<open>Lookups and list surgery\<close>

lemma find_one_SomeD:
  "find_one c k v = Some d \<Longrightarrow> d \<in> set (docs c) \<and> map_of d k = Some v"
  by (auto simp add: find_one_def find_Some_iff)

lemma find_one_nonempty: "find_one c k v = Some d \<Longrightarrow> d \<noteq> []"
  by (auto dest: find_one_SomeD)



lemma find_append_Some:
  "List.find P xs = Some x \<Longrightarrow> List.find P (xs @ ys) = Some x"
  by (induction xs) (auto split: if_splits)


lemma remove_first_split:
  "List.find P xs = Some x \<Longrightarrow>
     \<exists>ys zs. xs = ys @ x # zs \<and> remove_first P xs = ys @ zs \<and> list_all (\<lambda>y. \<not> P y) ys"
proof (induction xs)
  case Nil
  then show ?case by simp
next
  case (Cons a xs)
  show ?case
  proof (cases "P a")
    case True
    with Cons.prems have "a = x" by simp
    with True show ?thesis by (intro exI [of _ "[]"] exI [of _ xs]) simp
  next
    case False
    with Cons.prems have "List.find P xs = Some x" by simp
    from Cons.IH [OF this] obtain ys zs where
      "xs = ys @ x # zs" "remove_first P xs = ys @ zs" "list_all (\<lambda>y. \<not> P y) ys" by blast
    with False show ?thesis by (intro exI [of _ "a # ys"] exI [of _ zs]) simp
  qed
qed

subsection \<open>The administrator bootstrap\<close>

lemma create_admin_document:
  "UserRepository_create_user cfg c
     [(''username'', PStr u), (''email'', PStr e), (''password'', PStr p),
      (''full_name'', PStr ''Admin User''), (''role'', PStr ''admin''), (''disabled'', PBool False)]
   = insert_one c (admin_document cfg u p e)"
  by (simp add: UserRepository_create_user_def hash_password_field_def dict_contains_def
      dict_get_def admin_document_def)

lemma insert_one_InrD:
  assumes "insert_one c document = (c', Inr (stored, oid))"
  shows "docs c' = docs c @ [stored]"
    and "unique_indexes c' = unique_indexes c"
    and "stored = (if dict_contains ''_id'' document then document
                   else AList.update ''_id'' (PObjectId (oid_counter c)) document)"
  using assms by (auto simp add: insert_one_def Let_def split: if_splits)

lemma insert_one_InlD:
  assumes "insert_one c document = (c', Inl err)"
  shows "c' = c" and "err = DuplicateKeyError"
  using assms by (auto simp add: insert_one_def Let_def split: if_splits)

lemma map_of_update_other: "k \<noteq> k' \<Longrightarrow> map_of (AList.update k v al) k' = map_of al k'"
  by (simp add: update_conv')


lemma init_admin_user_absent:
  assumes "get_user_by_username c u = None"
  shows "init_admin_user cfg c u p e =
           (case insert_one c (admin_document cfg u p e) of
              (c', Inl err) \<Rightarrow> (c', Inl err)
            | (c', Inr r) \<Rightarrow> (c', Inr True))"
  using assms by (simp add: init_admin_user_def create_admin_document)



lemma init_admin_user_refused:
  assumes "get_user_by_username c u = None"
    and "duplicate_key (unique_indexes c) (docs c)
           (AList.update ''_id'' (PObjectId (oid_counter c)) (admin_document cfg u p e))"
  shows "init_admin_user cfg c u p e = (c, Inl DuplicateKeyError)"
  using assms(2)
  by (simp add: init_admin_user_absent [OF assms(1)] insert_one_def Let_def dict_contains_def
      admin_document_def)




text \<open>
  C7, as the specification states it: two calls of \<open>init_admin_user\<close> with identical
  arguments create exactly one admin record. On the collection that a first startup
  leaves, a bootstrap under the new username \<open>root\<close> with the same email finds no
  such username, and \<open>insert_one\<close> is refused by the unique index on \<open>email\<close>: both
  calls raise \<open>DuplicateKeyError\<close>, and no record for \<open>root\<close> is created.
\<close>

theorem bootstrap_refused_when_email_is_taken:
  "get_user_by_username admin_only ''root'' = None
   \<and> init_admin_user example_env admin_only ''root'' ''admin'' ''admin@example.com''
       = (admin_only, Inl DuplicateKeyError)
   \<and> init_admin_user example_env
         (fst (init_admin_user example_env admin_only ''root'' ''admin'' ''admin@example.com''))
         ''root'' ''admin'' ''admin@example.com''
       = (admin_only, Inl DuplicateKeyError)
   \<and> filter (\<lambda>d. map_of d ''username'' = Some (PStr ''root'')) (docs admin_only) = []"
proof -
  have absent: "get_user_by_username admin_only ''root'' = None"
    by (simp add: get_user_by_username_def find_one_def admin_only_def admin_doc_def)
  have refused: "init_admin_user example_env admin_only ''root'' ''admin'' ''admin@example.com''
                   = (admin_only, Inl DuplicateKeyError)"
    by (rule init_admin_user_refused [OF absent])
       (simp add: duplicate_key_def dict_get_def admin_document_def admin_only_def admin_doc_def)
  show ?thesis
    using absent refused by (simp add: admin_only_def admin_doc_def)
qed


lemma bootstrap_on_empty:
  "init_admin_user example_env empty_collection ''admin'' ''admin'' ''admin@example.com''
     = (admin_only\<lparr>unique_indexes := []\<rparr>, Inr True)"
  by (simp add: init_admin_user_def get_user_by_username_def find_one_def empty_collection_def
      create_admin_document insert_one_def admin_document_def dict_contains_def duplicate_key_def
      dict_get_def example_env_def admin_only_def admin_doc_def Let_def)

lemma startup_on_empty:
  "startup_db_client example_env empty_collection ''admin'' ''admin'' ''admin@example.com''
     = (admin_only, Inr True)"
  by (simp add: startup_db_client_def create_index_def create_unique_index_def
      init_admin_user_def get_user_by_username_def find_one_def empty_collection_def
      create_admin_document insert_one_def admin_document_def dict_contains_def duplicate_key_def
      dict_get_def example_env_def admin_only_def admin_doc_def Let_def)


subsection \<open>Deleting a user\<close>

lemma get_user_admin: "get_user example_env admin_and_alice ''admin'' = Inr (Some admin_record)"
  by (simp add: get_user_def get_user_by_username_def find_one_def admin_and_alice_def
      admin_doc_def UserInDB_parse_def admin_record_def example_env_def)

lemma decode_admin_token:
  "decode_token_data example_env 0 admin_token
     = Inr \<lparr>td_username = Some ''admin'', td_role = Some ''admin''\<rparr>"
  unfolding admin_token_def
  using decode_token_data_valid [of "[(''sub'', PStr ''admin''), (''role'', PStr ''admin''), (''exp'', PInt 1800)]"
      1800 0 "''admin''" "''admin''" example_env]
  by (simp add: example_env_def dict_get_default_def timegm_utctimetuple_def)

lemma get_current_user_admin:
  "get_current_user example_env 0 admin_and_alice admin_token = Inr admin_record"
  by (simp add: get_current_user_after_decode [OF decode_admin_token] get_user_admin)

lemma delete_one_found:
  assumes "find_one c k v = Some d"
  shows "\<exists>before after. docs c = before @ d # after
           \<and> delete_one c k v = (c\<lparr>docs := before @ after\<rparr>, 1)"
proof -
  from assms have "List.find (\<lambda>d. map_of d k = Some v) (docs c) = Some d"
    by (simp add: find_one_def)
  from remove_first_split [OF this] obtain ys zs where
    "docs c = ys @ d # zs" "remove_first (\<lambda>d. map_of d k = Some v) (docs c) = ys @ zs" by blast
  with assms show ?thesis by (auto simp add: delete_one_def)
qed

text \<open>
  C8, amended: for every authenticated caller, deleting the caller's own username is
  rejected and nothing is removed; the answer is 400 ("Cannot delete your own account")
  when the caller's stored role is \<open>admin\<close>, and 403 ("Not enough permissions") otherwise,
  because the admin guard runs before the handler. An admin deleting a different,
  existing username succeeds, and the first document with that username is removed.
\<close>

theorem self_deletion_rejected:
  assumes "get_current_user cfg t c tok = Inr cu"
  shows "delete_user cfg t c tok (username cu)
           = (c, Inl (if role cu = ''admin''
                      then HTTPException 400 ''Cannot delete your own account''
                      else HTTPException 403 ''Not enough permissions''))
         \<and> (role cu = ''admin'' \<and> uname \<noteq> username cu \<and> get_user_by_username c uname = Some d
              \<longrightarrow> (\<exists>before after. docs c = before @ d # after
                     \<and> delete_user cfg t c tok uname = (c\<lparr>docs := before @ after\<rparr>, Inr ())))"
proof -
  have self: "delete_user cfg t c tok (username cu)
                = (c, Inl (if role cu = ''admin''
                           then HTTPException 400 ''Cannot delete your own account''
                           else HTTPException 403 ''Not enough permissions''))"
    using assms by (simp add: delete_user_def get_admin_user_def)
  have other: "\<exists>before after. docs c = before @ d # after
                 \<and> delete_user cfg t c tok uname = (c\<lparr>docs := before @ after\<rparr>, Inr ())"
    if "role cu = ''admin''" and "uname \<noteq> username cu" and "get_user_by_username c uname = Some d"
  proof -
    from that(3) have "find_one c ''username'' (PStr uname) = Some d"
      by (simp add: get_user_by_username_def)
    from delete_one_found [OF this] obtain before after where
      "docs c = before @ d # after"
      "delete_one c ''username'' (PStr uname) = (c\<lparr>docs := before @ after\<rparr>, 1)" by blast
    with assms that(1,2) show ?thesis
      by (intro exI [of _ before] exI [of _ after])
         (simp add: delete_user_def get_admin_user_def UserRepository_delete_user_def)
  qed
  from self other show ?thesis by blast
qed

text \<open>
  C8, as the specification states it: self-deletion is answered 400 whatever the role of
  the caller. A caller whose role is \<open>user\<close> is answered 403.
\<close>

theorem self_deletion_by_non_admin_is_forbidden:
  "get_current_user example_env 0 alice_only alice_user_token = Inr alice_record
   \<and> username alice_record = ''alice''
   \<and> delete_user example_env 0 alice_only alice_user_token ''alice''
       = (alice_only, Inl (HTTPException 403 ''Not enough permissions''))"
  using get_current_user_alice
  by (simp add: delete_user_def get_admin_user_def alice_record_def)

theorem self_deletion_rejected_witness:
  "get_current_user example_env 0 admin_and_alice admin_token = Inr admin_record
   \<and> delete_user example_env 0 admin_and_alice admin_token ''admin''
       = (admin_and_alice, Inl (HTTPException 400 ''Cannot delete your own account''))
   \<and> role admin_record = ''admin'' \<and> ''alice'' \<noteq> username admin_record
   \<and> get_user_by_username admin_and_alice ''alice'' = Some alice_doc
   \<and> (\<exists>before after. docs admin_and_alice = before @ alice_doc # after
          \<and> delete_user example_env 0 admin_and_alice admin_token ''alice''
              = (admin_and_alice\<lparr>docs := before @ after\<rparr>, Inr ()))"
proof -
  have found: "get_user_by_username admin_and_alice ''alice'' = Some alice_doc"
    by (simp add: get_user_by_username_def find_one_def admin_and_alice_def admin_doc_def
        alice_doc_def)
  have adm: "role admin_record = ''admin'' \<and> ''alice'' \<noteq> username admin_record"
    and un: "username admin_record = ''admin''"
    by (simp_all add: admin_record_def)
  show ?thesis
    using found adm get_current_user_admin
      self_deletion_rejected [OF get_current_user_admin, of "''alice''" alice_doc]
    by (simp add: un)
qed

subsection \<open>Passwords in the collection\<close>

lemma map_of_delete_same: "map_of (AList.delete k al) k = None"
  by (simp add: delete_conv')

lemma hash_password_field_no_password:
  assumes "hash_password_field cfg user_data = Inr prepared"
  shows "map_of prepared ''password'' = None"
  using assms
  by (auto simp add: hash_password_field_def dict_contains_def update_conv' map_of_delete_same
      split: if_splits sum.splits)

lemma hash_password_field_hashed:
  assumes "hash_password_field cfg user_data = Inr prepared"
    and "map_of user_data ''password'' = Some (PStr p)"
  shows "map_of prepared ''hashed_password'' = Some (PStr (pwd_hash cfg p))"
  using assms
  by (auto simp add: hash_password_field_def dict_contains_def dict_get_def update_conv'
      split: if_splits sum.splits)

lemma create_user_stored:
  assumes "UserRepository_create_user cfg c user_data = (c', Inr (stored, oid))"
  shows "docs c' = docs c @ [stored]"
    and "map_of stored ''password'' = None"
    and "map_of user_data ''password'' = Some (PStr p) \<Longrightarrow>
           map_of stored ''hashed_password'' = Some (PStr (pwd_hash cfg p))"
proof -
  from assms obtain prepared where prep: "hash_password_field cfg user_data = Inr prepared"
    by (auto simp add: UserRepository_create_user_def split: sum.splits)
  let ?d1 = "if \<not> dict_contains ''role'' prepared
             then AList.update ''role'' (PStr ''user'') prepared else prepared"
  let ?d2 = "if \<not> dict_contains ''disabled'' ?d1
             then AList.update ''disabled'' (PBool False) ?d1 else ?d1"
  from assms prep have ins: "insert_one c ?d2 = (c', Inr (stored, oid))"
    by (simp add: UserRepository_create_user_def Let_def split del: if_split)
  from insert_one_InrD [OF ins] have dc: "docs c' = docs c @ [stored]"
    and st: "stored = (if dict_contains ''_id'' ?d2 then ?d2
                       else AList.update ''_id'' (PObjectId (oid_counter c)) ?d2)"
    by simp_all
  show "docs c' = docs c @ [stored]" by (rule dc)
  have same: "map_of stored k = map_of prepared k"
    if "k \<noteq> ''role''" "k \<noteq> ''disabled''" "k \<noteq> ''_id''" for k
    using that by (subst st) (simp add: update_conv')
  show "map_of stored ''password'' = None"
    using hash_password_field_no_password [OF prep] by (simp add: same)
  show "map_of stored ''hashed_password'' = Some (PStr (pwd_hash cfg p))"
    if "map_of user_data ''password'' = Some (PStr p)"
    using hash_password_field_hashed [OF prep that] by (simp add: same)
qed

lemma create_user_failed:
  assumes "UserRepository_create_user cfg c user_data = (c', Inl err)"
  shows "c' = c"
  using assms
  by (auto simp add: UserRepository_create_user_def Let_def split: sum.splits dest: insert_one_InlD)

lemma map_of_set_fields_absent:
  "map_of upd k = None \<Longrightarrow> map_of (set_fields d upd) k = map_of d k"
proof (induction upd arbitrary: d)
  case Nil
  then show ?case by (simp add: set_fields_def)
next
  case (Cons kv upd)
  from Cons.prems have "fst kv \<noteq> k" and "map_of upd k = None"
    by (cases kv; simp split: if_splits)+
  with Cons.IH [of "AList.update (fst kv) (snd kv) d"] show ?case
    by (simp add: set_fields_def update_conv')
qed

lemma list_all_replace_first:
  "list_all Q xs \<Longrightarrow> Q y \<Longrightarrow> list_all Q (replace_first P y xs)"
  by (induction xs) auto

lemma list_all_remove_first: "list_all Q xs \<Longrightarrow> list_all Q (remove_first P xs)"
  by (induction xs) auto

lemma update_one_docs:
  assumes "update_one c k v upd = (c', res)"
  shows "c' = c
         \<or> (\<exists>d. find_one c k v = Some d
                \<and> docs c' = replace_first (\<lambda>d. map_of d k = Some v) (set_fields d upd) (docs c))"
  using assms by (auto simp add: update_one_def Let_def split: option.splits if_splits)

lemma update_user_preserves:
  assumes "no_plaintext_password c"
  shows "no_plaintext_password (fst (UserRepository_update_user cfg c uname user_data))"
proof (cases "hash_password_field cfg user_data")
  case (Inl err)
  with assms show ?thesis by (simp add: UserRepository_update_user_def)
next
  case (Inr prepared)
  obtain c' res where u: "update_one c ''username'' (PStr uname) prepared = (c', res)"
    by (cases "update_one c ''username'' (PStr uname) prepared")
  have fst_eq: "fst (UserRepository_update_user cfg c uname user_data) = c'"
    using Inr u by (simp add: UserRepository_update_user_def split: sum.splits prod.splits)
  from update_one_docs [OF u] show ?thesis
  proof
    assume "c' = c"
    with assms fst_eq show ?thesis by simp
  next
    assume "\<exists>d. find_one c ''username'' (PStr uname) = Some d
                \<and> docs c' = replace_first (\<lambda>d. map_of d ''username'' = Some (PStr uname))
                              (set_fields d prepared) (docs c)"
    then obtain d where f: "find_one c ''username'' (PStr uname) = Some d"
      and dc: "docs c' = replace_first (\<lambda>d. map_of d ''username'' = Some (PStr uname))
                           (set_fields d prepared) (docs c)" by blast
    from f have "d \<in> set (docs c)" by (simp add: find_one_SomeD)
    with assms have "map_of d ''password'' = None"
      by (simp add: no_plaintext_password_def list_all_iff)
    then have "map_of (set_fields d prepared) ''password'' = None"
      using hash_password_field_no_password [OF Inr] by (simp add: map_of_set_fields_absent)
    with assms show ?thesis
      by (simp add: fst_eq no_plaintext_password_def dc list_all_replace_first)
  qed
qed

lemma create_user_preserves:
  assumes "no_plaintext_password c"
  shows "no_plaintext_password (fst (UserRepository_create_user cfg c user_data))"
proof -
  obtain c' res where r: "UserRepository_create_user cfg c user_data = (c', res)"
    by (cases "UserRepository_create_user cfg c user_data")
  show ?thesis
  proof (cases res)
    case (Inl err)
    with r have "c' = c" by (auto dest: create_user_failed)
    with r assms show ?thesis by simp
  next
    case (Inr so)
    obtain stored oid where "so = (stored, oid)" by (cases so)
    with r Inr have "UserRepository_create_user cfg c user_data = (c', Inr (stored, oid))" by simp
    from create_user_stored(1,2) [OF this] assms r show ?thesis
      by (simp add: no_plaintext_password_def)
  qed
qed

lemma delete_user_preserves:
  assumes "no_plaintext_password c"
  shows "no_plaintext_password (fst (UserRepository_delete_user c uname))"
  using assms
  by (auto simp add: UserRepository_delete_user_def delete_one_def no_plaintext_password_def
      list_all_remove_first split: option.splits)

lemma create_index_docs: "docs (fst (create_index c)) = docs c"
  by (auto simp add: create_index_def create_unique_index_def split: prod.splits sum.splits if_splits)

lemma reachable_no_plaintext_password: "reachable c \<Longrightarrow> no_plaintext_password c"
proof (induction rule: reachable.induct)
  case (fresh c)
  then show ?case by (simp add: no_plaintext_password_def)
next
  case (created c cfg user_data)
  then show ?case by (simp add: create_user_preserves)
next
  case (updated c cfg uname user_data)
  then show ?case by (simp add: update_user_preserves)
next
  case (deleted c uname)
  then show ?case by (simp add: delete_user_preserves)
next
  case (indexed c)
  then show ?case by (simp add: no_plaintext_password_def create_index_docs)
qed

lemma map_of_set_fields:
  "distinct (map fst upd) \<Longrightarrow>
     map_of (set_fields d upd) k = (case map_of upd k of None \<Rightarrow> map_of d k | Some v \<Rightarrow> Some v)"
proof (induction upd arbitrary: d)
  case Nil
  then show ?case by (simp add: set_fields_def)
next
  case (Cons kv upd)
  obtain k0 v0 where kv: "kv = (k0, v0)" by (cases kv)
  from Cons.prems kv have notin: "k0 \<notin> fst ` set upd" and dist: "distinct (map fst upd)"
    by simp_all
  from notin have none: "map_of upd k0 = None"
    by (simp add: map_of_eq_None_iff)
  have step: "set_fields d ((k0, v0) # upd) = set_fields (AList.update k0 v0 d) upd"
    by (simp add: set_fields_def)
  have "map_of (set_fields (AList.update k0 v0 d) upd) k
          = (case map_of upd k of None \<Rightarrow> map_of (AList.update k0 v0 d) k | Some v \<Rightarrow> Some v)"
    by (rule Cons.IH [OF dist])
  with none show ?case
    unfolding kv step by (auto simp add: update_conv' split: option.splits)
qed

lemma hash_password_field_distinct:
  assumes "hash_password_field cfg user_data = Inr prepared"
    and "distinct (map fst user_data)"
  shows "distinct (map fst prepared)"
  using assms
  by (auto simp add: hash_password_field_def distinct_update distinct_delete
      split: if_splits sum.splits)

lemma update_user_modified:
  assumes "UserRepository_update_user cfg c uname user_data = (c2, Inr True)"
  shows "\<exists>d set_doc. get_user_by_username c uname = Some d
           \<and> hash_password_field cfg user_data = Inr set_doc
           \<and> docs c2 = replace_first (\<lambda>x. map_of x ''username'' = Some (PStr uname))
                          (set_fields d set_doc) (docs c)"
proof -
  from assms obtain set_doc where h: "hash_password_field cfg user_data = Inr set_doc"
    by (auto simp add: UserRepository_update_user_def split: sum.splits)
  from assms h obtain m n where
    u: "update_one c ''username'' (PStr uname) set_doc = (c2, Inr (m, n))" and n: "0 < n"
    by (auto simp add: UserRepository_update_user_def split: prod.splits sum.splits)
  from u n obtain d where "find_one c ''username'' (PStr uname) = Some d"
    and "docs c2 = replace_first (\<lambda>x. map_of x ''username'' = Some (PStr uname))
                     (set_fields d set_doc) (docs c)"
    by (auto simp add: update_one_def Let_def split: option.splits if_splits)
  with h show ?thesis
    by (auto simp add: get_user_by_username_def)
qed

lemma update_user_unmodified:
  assumes "UserRepository_update_user cfg c uname user_data = (c2, res)"
    and "res \<noteq> Inr True"
  shows "c2 = c"
proof (cases "hash_password_field cfg user_data")
  case (Inl err)
  with assms show ?thesis by (simp add: UserRepository_update_user_def)
next
  case (Inr set_doc)
  obtain c' r where u: "update_one c ''username'' (PStr uname) set_doc = (c', r)"
    by (cases "update_one c ''username'' (PStr uname) set_doc")
  from u have "c' = c \<or> r = Inr (1, 1)"
    by (auto simp add: update_one_def Let_def split: option.splits if_splits)
  with assms Inr u show ?thesis
    by (auto simp add: UserRepository_update_user_def split: sum.splits prod.splits)
qed

text \<open>
  C5. No plaintext password is persisted. Before the insert or the \<open>$set\<close> reaches the
  collection, \<open>create_user\<close> and \<open>update_user\<close> remove the \<open>password\<close> key and put
  \<open>hashed_password\<close>, the hash of its value, in its place. The inserted document has
  no \<open>password\<close> key and holds that hash. An update that modifies the collection
  replaces the first document with the username by that document with the hashed
  fields set: it has no \<open>password\<close> key, and when the update (a dictionary, so its
  keys are distinct) carried a password its \<open>hashed_password\<close> is the hash of it; an
  update that does not report a modification writes nothing. No collection that the repository's operations can reach from an
  empty one contains a document with a \<open>password\<close> key.
\<close>

theorem no_plaintext_password_persisted:
  assumes "reachable c"
  shows "no_plaintext_password c
         \<and> (hash_password_field cfg user_data = Inr prepared \<longrightarrow>
              map_of prepared ''password'' = None
              \<and> (map_of user_data ''password'' = Some (PStr p) \<longrightarrow>
                   map_of prepared ''hashed_password'' = Some (PStr (pwd_hash cfg p))))
         \<and> (UserRepository_create_user cfg c user_data = (c', Inr (stored, oid)) \<longrightarrow>
              docs c' = docs c @ [stored]
              \<and> map_of stored ''password'' = None
              \<and> (map_of user_data ''password'' = Some (PStr p) \<longrightarrow>
                   map_of stored ''hashed_password'' = Some (PStr (pwd_hash cfg p))))
         \<and> no_plaintext_password (fst (UserRepository_create_user cfg c user_data))
         \<and> no_plaintext_password (fst (UserRepository_update_user cfg c uname user_data))
         \<and> (UserRepository_update_user cfg c uname user_data = (c2, Inr True) \<longrightarrow>
              (\<exists>d set_doc. get_user_by_username c uname = Some d
                  \<and> hash_password_field cfg user_data = Inr set_doc
                  \<and> docs c2 = replace_first (\<lambda>x. map_of x ''username'' = Some (PStr uname))
                                 (set_fields d set_doc) (docs c)
                  \<and> map_of (set_fields d set_doc) ''password'' = None
                  \<and> (distinct (map fst user_data)
                       \<and> map_of user_data ''password'' = Some (PStr p) \<longrightarrow>
                       map_of (set_fields d set_doc) ''hashed_password''
                         = Some (PStr (pwd_hash cfg p)))))
         \<and> (UserRepository_update_user cfg c uname user_data = (c3, res)
               \<and> res \<noteq> Inr True \<longrightarrow> c3 = c)"
proof -
  have inv: "no_plaintext_password c"
    using assms by (rule reachable_no_plaintext_password)
  have prep: "map_of prepared ''password'' = None
              \<and> (map_of user_data ''password'' = Some (PStr p) \<longrightarrow>
                   map_of prepared ''hashed_password'' = Some (PStr (pwd_hash cfg p)))"
    if "hash_password_field cfg user_data = Inr prepared"
    using hash_password_field_no_password [OF that] hash_password_field_hashed [OF that]
    by blast
  have ins: "docs c' = docs c @ [stored] \<and> map_of stored ''password'' = None
             \<and> (map_of user_data ''password'' = Some (PStr p) \<longrightarrow>
                  map_of stored ''hashed_password'' = Some (PStr (pwd_hash cfg p)))"
    if "UserRepository_create_user cfg c user_data = (c', Inr (stored, oid))"
    using create_user_stored [OF that] by blast
  have upd: "\<exists>d set_doc. get_user_by_username c uname = Some d
                  \<and> hash_password_field cfg user_data = Inr set_doc
                  \<and> docs c2 = replace_first (\<lambda>x. map_of x ''username'' = Some (PStr uname))
                                 (set_fields d set_doc) (docs c)
                  \<and> map_of (set_fields d set_doc) ''password'' = None
                  \<and> (distinct (map fst user_data)
                       \<and> map_of user_data ''password'' = Some (PStr p) \<longrightarrow>
                       map_of (set_fields d set_doc) ''hashed_password''
                         = Some (PStr (pwd_hash cfg p)))"
    if m: "UserRepository_update_user cfg c uname user_data = (c2, Inr True)"
  proof -
    from update_user_modified [OF m] obtain d set_doc where
      d: "get_user_by_username c uname = Some d"
      and h: "hash_password_field cfg user_data = Inr set_doc"
      and r: "docs c2 = replace_first (\<lambda>x. map_of x ''username'' = Some (PStr uname))
                          (set_fields d set_doc) (docs c)"
      by blast
    from d have "d \<in> set (docs c)"
      by (simp add: get_user_by_username_def find_one_SomeD)
    with inv have "map_of d ''password'' = None"
      by (simp add: no_plaintext_password_def list_all_iff)
    then have nopw: "map_of (set_fields d set_doc) ''password'' = None"
      using hash_password_field_no_password [OF h] by (simp add: map_of_set_fields_absent)
    have hashed: "map_of (set_fields d set_doc) ''hashed_password''
                    = Some (PStr (pwd_hash cfg p))"
      if "distinct (map fst user_data)" and "map_of user_data ''password'' = Some (PStr p)"
      using hash_password_field_hashed [OF h that(2)]
        map_of_set_fields [OF hash_password_field_distinct [OF h that(1)], of d "''hashed_password''"]
      by simp
    from d h r nopw hashed show ?thesis by blast
  qed
  have unmod: "c3 = c"
    if "UserRepository_update_user cfg c uname user_data = (c3, res) \<and> res \<noteq> Inr True"
    using that update_user_unmodified by blast
  show ?thesis
    using inv prep ins upd unmod create_user_preserves [OF inv] update_user_preserves [OF inv]
    by (intro conjI impI) blast+
qed

lemma register_alice_directly:
  "UserRepository_create_user example_env empty_collection
     [(''username'', PStr ''alice''), (''password'', PStr ''pw123'')]
   = (alice_registered,
      Inr ([(''username'', PStr ''alice''), (''hashed_password'', PStr ''$2b$pw123''),
            (''role'', PStr ''user''), (''disabled'', PBool False), (''_id'', PObjectId 0)],
           PObjectId 0))"
  by (simp add: UserRepository_create_user_def hash_password_field_def dict_contains_def
      dict_get_def insert_one_def duplicate_key_def empty_collection_def example_env_def Let_def
      alice_registered_def)

lemma rehash_alice_directly:
  "UserRepository_update_user example_env alice_registered ''alice''
     [(''password'', PStr ''pw789'')] = (alice_rehashed, Inr True)"
  by (simp add: UserRepository_update_user_def hash_password_field_def dict_contains_def
      dict_get_def update_one_def find_one_def set_is_noop_def set_fields_def duplicate_key_def
      alice_registered_def alice_rehashed_def example_env_def Let_def)

theorem no_plaintext_password_persisted_witness:
  "reachable empty_collection \<and> reachable alice_registered
   \<and> UserRepository_create_user example_env empty_collection
         [(''username'', PStr ''alice''), (''password'', PStr ''pw123'')]
       = (alice_registered,
          Inr ([(''username'', PStr ''alice''), (''hashed_password'', PStr ''$2b$pw123''),
                (''role'', PStr ''user''), (''disabled'', PBool False), (''_id'', PObjectId 0)],
               PObjectId 0))
   \<and> no_plaintext_password alice_registered
   \<and> distinct (map fst [(''password'', PStr ''pw789'')])
   \<and> UserRepository_update_user example_env alice_registered ''alice''
         [(''password'', PStr ''pw789'')] = (alice_rehashed, Inr True)
   \<and> (\<exists>d set_doc. get_user_by_username alice_registered ''alice'' = Some d
          \<and> hash_password_field example_env [(''password'', PStr ''pw789'')] = Inr set_doc
          \<and> docs alice_rehashed
              = replace_first (\<lambda>x. map_of x ''username'' = Some (PStr ''alice''))
                  (set_fields d set_doc) (docs alice_registered)
          \<and> map_of (set_fields d set_doc) ''password'' = None
          \<and> map_of (set_fields d set_doc) ''hashed_password''
              = Some (PStr (pwd_hash example_env ''pw789'')))
   \<and> docs alice_rehashed
       = [[(''username'', PStr ''alice''), (''hashed_password'', PStr ''$2b$pw789''),
           (''role'', PStr ''user''), (''disabled'', PBool False), (''_id'', PObjectId 0)]]"
proof -
  have r0: "reachable empty_collection"
    by (rule reachable.fresh) (simp add: empty_collection_def)
  have "reachable (fst (UserRepository_create_user example_env empty_collection
                          [(''username'', PStr ''alice''), (''password'', PStr ''pw123'')]))"
    using r0 by (rule reachable.created)
  then have r1: "reachable alice_registered"
    by (simp add: register_alice_directly)
  note T = no_plaintext_password_persisted
             [OF r1, of example_env "[(''password'', PStr ''pw789'')]" _ "''pw789''" _ _ _
                 "''alice''" alice_rehashed]
  from T have inv: "no_plaintext_password alice_registered" by blast
  from T rehash_alice_directly
  have upd: "\<exists>d set_doc. get_user_by_username alice_registered ''alice'' = Some d
          \<and> hash_password_field example_env [(''password'', PStr ''pw789'')] = Inr set_doc
          \<and> docs alice_rehashed
              = replace_first (\<lambda>x. map_of x ''username'' = Some (PStr ''alice''))
                  (set_fields d set_doc) (docs alice_registered)
          \<and> map_of (set_fields d set_doc) ''password'' = None
          \<and> map_of (set_fields d set_doc) ''hashed_password''
              = Some (PStr (pwd_hash example_env ''pw789''))"
    by simp
  have shape: "docs alice_rehashed
       = [[(''username'', PStr ''alice''), (''hashed_password'', PStr ''$2b$pw789''),
           (''role'', PStr ''user''), (''disabled'', PBool False), (''_id'', PObjectId 0)]]"
    by (simp add: alice_rehashed_def)
  show ?thesis
    using r0 r1 inv upd shape register_alice_directly rehash_alice_directly by simp
qed

subsection \<open>Updates that change nothing\<close>

lemma set_is_noop_lookup:
  assumes "set_is_noop d upd" and "map_of upd k = Some v"
  shows "map_of d k = Some v"
proof -
  from assms(2) have "(k, v) \<in> set upd"
    by (rule map_of_SomeD)
  with assms(1) have "map_of d (fst (k, v)) = Some (snd (k, v))"
    unfolding set_is_noop_def list_all_iff by (rule bspec)
  then show ?thesis by simp
qed

lemma update_user_noop:
  assumes "get_user_by_username c uname = Some d"
    and "set_is_noop d user_data"
    and "map_of d ''password'' = None"
  shows "UserRepository_update_user cfg c uname user_data = (c, Inr False)"
proof -
  have "map_of user_data ''password'' = None"
  proof (cases "map_of user_data ''password''")
    case (Some v)
    from set_is_noop_lookup [OF assms(2) Some] assms(3) show ?thesis by simp
  qed simp
  then have "hash_password_field cfg user_data = Inr user_data"
    by (simp add: hash_password_field_def dict_contains_def)
  moreover have "update_one c ''username'' (PStr uname) user_data = (c, Inr (1, 0))"
    using assms(1,2) by (simp add: update_one_def get_user_by_username_def)
  ultimately show ?thesis
    by (simp add: UserRepository_update_user_def)
qed

lemma map_of_filter_none:
  "distinct (map fst al) \<Longrightarrow>
     map_of (filter_none al) k = (if map_of al k = Some PNone then None else map_of al k)"
proof (induction al)
  case Nil
  then show ?case by (simp add: filter_none_def)
next
  case (Cons kv al)
  obtain k' v' where kv: "kv = (k', v')" by (cases kv)
  from Cons.prems kv have notin: "k' \<notin> fst ` set al" and dist: "distinct (map fst al)"
    by simp_all
  from notin have none: "map_of al k' = None"
    by (simp add: map_of_eq_None_iff)
  from Cons.IH [OF dist] have ih: "map_of (filter (\<lambda>kv. snd kv \<noteq> PNone) al) k
      = (if map_of al k = Some PNone then None else map_of al k)"
    by (simp add: filter_none_def)
  show ?case
    using none ih by (auto simp add: filter_none_def kv)
qed

lemma UserUpdate_dict_email:
  "map_of (filter_none (UserUpdate_dict user_update)) ''email''
     = (case upd_email user_update of None \<Rightarrow> None | Some e \<Rightarrow> Some (PStr e))"
  by (subst map_of_filter_none) (auto simp add: UserUpdate_dict_def split: option.splits)

lemma optional_email_field_PStr:
  "optional_email_field cfg (Some (PStr e)) = Inr em \<Longrightarrow> em = Some e"
  by (simp split: if_splits)

lemma get_current_active_user_InrD:
  assumes "get_current_active_user cfg t c tok = Inr cu"
  shows "get_current_user cfg t c tok = Inr cu"
  using assms by (auto simp add: get_current_active_user_def split: sum.splits if_splits)

lemma update_user_me_noop:
  assumes cur: "get_current_active_user cfg t c tok = Inr cu"
    and stored: "get_user_by_username c (username cu) = Some d"
    and nonempty: "filter_none (UserUpdate_dict user_update) \<noteq> []"
    and noop: "set_is_noop d (filter_none (UserUpdate_dict user_update))"
    and nopw: "map_of d ''password'' = None"
  shows "update_user_me cfg t c tok user_update
           = (c, Inl (HTTPException 500 ''Failed to update user''))"
proof -
  let ?ud = "filter_none (UserUpdate_dict user_update)"
  from get_user_SomeD [OF get_current_user_InrD [OF get_current_active_user_InrD [OF cur]]] stored
  have parse: "UserInDB_parse cfg d = Inr cu" by auto
  have same: "dict_get ?ud ''email'' = py_optional_str (email cu)" if "dict_contains ''email'' ?ud"
  proof -
    from that obtain e where e: "upd_email user_update = Some e"
      and m: "map_of ?ud ''email'' = Some (PStr e)"
      by (auto simp add: dict_contains_def UserUpdate_dict_email split: option.splits)
    from set_is_noop_lookup [OF noop m] have "map_of d ''email'' = Some (PStr e)" .
    with UserInDB_parse_fields(2) [OF parse] have "email cu = Some e"
      by (auto split: if_splits)
    with m show ?thesis by (simp add: dict_get_def)
  qed
  have upd: "UserRepository_update_user cfg c (username cu) ?ud = (c, Inr False)"
    using stored noop nopw by (rule update_user_noop)
  show ?thesis
    using nonempty same by (auto simp add: update_user_me_def cur upd Let_def)
qed

lemma admin_email_check_noop:
  assumes "set_is_noop d update_data"
  shows "admin_email_check c uname d update_data = None"
proof (cases "map_of update_data ''email''")
  case None
  then show ?thesis by (simp add: admin_email_check_def dict_contains_def)
next
  case (Some v)
  from set_is_noop_lookup [OF assms Some] have "map_of d ''email'' = Some v" .
  with Some show ?thesis
    by (simp add: admin_email_check_def dict_contains_def dict_item_def dict_get_def)
qed

lemma admin_update_user_noop:
  assumes adm: "get_admin_user cfg t c tok = Inr admin"
    and stored: "get_user_by_username c uname = Some d"
    and nonempty: "filter_none (UserUpdate_dict user_update) \<noteq> []"
    and noop: "set_is_noop d (filter_none (UserUpdate_dict user_update))"
    and nopw: "map_of d ''password'' = None"
  shows "admin_update_user cfg t c tok uname user_update
           = (c, Inl (HTTPException 500 ''Failed to update user''))"
proof -
  let ?ud = "filter_none (UserUpdate_dict user_update)"
  from stored have ne: "d \<noteq> []"
    by (auto simp add: get_user_by_username_def dest: find_one_nonempty)
  have upd: "UserRepository_update_user cfg c uname ?ud = (c, Inr False)"
    using stored noop nopw by (rule update_user_noop)
  show ?thesis
    using nonempty ne
    by (simp add: admin_update_user_def adm stored admin_email_check_noop [OF noop] upd Let_def)
qed

text \<open>
  C10. An update whose fields all equal the stored values is reported as a failure.
  For an existing username, a stored document without a \<open>password\<close> key, and a
  non-empty set of fields each of which equals the value the document already holds,
  \<open>update_one\<close> matches but modifies nothing, \<open>update_user\<close> returns \<open>False\<close>, the
  collection is unchanged, and both update endpoints answer 500 ("Failed to update
  user").
\<close>

theorem unchanged_update_reports_failure:
  assumes "get_user_by_username c uname = Some d"
    and "map_of d ''password'' = None"
    and "filter_none (UserUpdate_dict user_update) \<noteq> []"
    and "set_is_noop d (filter_none (UserUpdate_dict user_update))"
  shows "UserRepository_update_user cfg c uname (filter_none (UserUpdate_dict user_update))
           = (c, Inr False)
         \<and> (get_current_active_user cfg t c tok = Inr current_user
              \<and> username current_user = uname \<longrightarrow>
              update_user_me cfg t c tok user_update
                = (c, Inl (HTTPException 500 ''Failed to update user'')))
         \<and> (get_admin_user cfg t c tok' = Inr admin \<longrightarrow>
              admin_update_user cfg t c tok' uname user_update
                = (c, Inl (HTTPException 500 ''Failed to update user'')))
         \<and> http_status (HTTPException 500 ''Failed to update user'') = 500"
proof -
  have repo: "UserRepository_update_user cfg c uname (filter_none (UserUpdate_dict user_update))
                = (c, Inr False)"
    using assms(1,4,2) by (rule update_user_noop)
  have me: "update_user_me cfg t c tok user_update
              = (c, Inl (HTTPException 500 ''Failed to update user''))"
    if "get_current_active_user cfg t c tok = Inr current_user" and "username current_user = uname"
    using that assms by (intro update_user_me_noop [where cu = current_user and d = d]) simp_all
  have adm: "admin_update_user cfg t c tok' uname user_update
               = (c, Inl (HTTPException 500 ''Failed to update user''))"
    if "get_admin_user cfg t c tok' = Inr admin"
    using that assms by (intro admin_update_user_noop [where admin = admin and d = d]) simp_all
  show ?thesis
    using repo me adm by simp
qed

lemma get_user_alice_second:
  "get_user example_env admin_and_alice ''alice'' = Inr (Some alice_record)"
  by (simp add: get_user_def get_user_by_username_def find_one_def admin_and_alice_def
      admin_doc_def alice_doc_def UserInDB_parse_def alice_record_def)

lemma get_current_active_user_alice:
  "get_current_active_user example_env 0 admin_and_alice alice_user_token = Inr alice_record"
  by (simp add: get_current_active_user_def
      get_current_user_after_decode [OF decode_alice_user_token] get_user_alice_second
      alice_record_def)

theorem unchanged_update_reports_failure_witness:
  "get_user_by_username admin_and_alice ''alice'' = Some alice_doc
   \<and> map_of alice_doc ''password'' = None
   \<and> filter_none (UserUpdate_dict unchanged_update)
       = [(''disabled'', PBool False), (''role'', PStr ''user'')]
   \<and> set_is_noop alice_doc (filter_none (UserUpdate_dict unchanged_update))
   \<and> get_current_active_user example_env 0 admin_and_alice alice_user_token = Inr alice_record
   \<and> username alice_record = ''alice''
   \<and> get_admin_user example_env 0 admin_and_alice admin_token = Inr admin_record
   \<and> UserRepository_update_user example_env admin_and_alice ''alice''
         (filter_none (UserUpdate_dict unchanged_update)) = (admin_and_alice, Inr False)
   \<and> update_user_me example_env 0 admin_and_alice alice_user_token unchanged_update
       = (admin_and_alice, Inl (HTTPException 500 ''Failed to update user''))
   \<and> admin_update_user example_env 0 admin_and_alice admin_token ''alice'' unchanged_update
       = (admin_and_alice, Inl (HTTPException 500 ''Failed to update user''))"
proof -
  have found: "get_user_by_username admin_and_alice ''alice'' = Some alice_doc"
    by (simp add: get_user_by_username_def find_one_def admin_and_alice_def admin_doc_def
        alice_doc_def)
  have nopw: "map_of alice_doc ''password'' = None"
    by (simp add: alice_doc_def)
  have ud: "filter_none (UserUpdate_dict unchanged_update)
              = [(''disabled'', PBool False), (''role'', PStr ''user'')]"
    by (simp add: filter_none_def UserUpdate_dict_def unchanged_update_def)
  have noop: "set_is_noop alice_doc (filter_none (UserUpdate_dict unchanged_update))"
    by (simp add: ud set_is_noop_def alice_doc_def)
  have ne: "filter_none (UserUpdate_dict unchanged_update) \<noteq> []"
    by (simp add: ud)
  have un: "username alice_record = ''alice''"
    by (simp add: alice_record_def)
  have adm: "get_admin_user example_env 0 admin_and_alice admin_token = Inr admin_record"
    by (simp add: get_admin_user_def get_current_user_admin admin_record_def)
  show ?thesis
    using found nopw ud noop un adm get_current_active_user_alice
      unchanged_update_reports_failure [OF found nopw ne noop,
        of example_env 0 alice_user_token alice_record admin_token admin_record]
    by simp
qed

subsection \<open>Registration\<close>

lemma create_user_username_taken:
  assumes "get_user_by_username c (username user) = Some d"
  shows "create_user cfg c user = (c, Inl (HTTPException 400 ''Username already registered''))"
  using assms
  by (auto simp add: create_user_def Let_def get_user_by_username_def dest: find_one_nonempty)

lemma create_user_email_taken:
  assumes "get_user_by_username c (username user) = None"
    and "email user = Some e" and "e \<noteq> []"
    and "get_user_by_email c (PStr e) = Some d"
  shows "create_user cfg c user = (c, Inl (HTTPException 400 ''Email already registered''))"
  using assms
  by (auto simp add: create_user_def Let_def get_user_by_email_def dest: find_one_nonempty)

lemma create_user_body:
  assumes "create_user cfg c user = (c', Inr body)"
  shows "map_of body ''password'' = None" and "map_of body ''hashed_password'' = None"
proof -
  from assms obtain user_data where
    "body = response_model_User (filter (\<lambda>kv. fst kv \<noteq> ''password'') user_data)"
    by (auto simp add: create_user_def Let_def split: if_splits prod.splits sum.splits)
  then have "fst ` set body \<subseteq> set User_fields"
    by (auto simp add: response_model_User_def)
  then have "''password'' \<notin> fst ` set body" and "''hashed_password'' \<notin> fst ` set body"
    by (auto simp add: User_fields_def)
  then show "map_of body ''password'' = None" and "map_of body ''hashed_password'' = None"
    by (simp_all add: map_of_eq_None_iff)
qed

text \<open>
  C6. Registration answers 400 and leaves the collection unchanged when the username
  or the email is taken (lemmas \<open>create_user_username_taken\<close> and
  \<open>create_user_email_taken\<close>), and a successful answer carries no password field
  (lemma \<open>create_user_body\<close>). It does not succeed in every other case. On the
  collection that the startup hook leaves (both unique indexes, the administrator),
  a first registration without email succeeds; a second registration without email,
  under a username that is free, passes both checks of the handler and is then refused
  by the unique index on \<open>email\<close>, which already holds a document whose email is
  \<open>null\<close>: \<open>insert_one\<close> raises \<open>DuplicateKeyError\<close>, answered 500, and nothing is
  stored.
\<close>

theorem second_registration_without_email_fails:
  "startup_db_client example_env empty_collection ''admin'' ''admin'' ''admin@example.com''
     = (admin_only, Inr True)
   \<and> create_user example_env admin_only alice_registration
       = (admin_and_alice,
          Inr [(''username'', PStr ''alice''), (''email'', PNone), (''full_name'', PNone),
               (''disabled'', PBool False), (''role'', PStr ''user'')])
   \<and> get_user_by_username admin_and_alice (username bob_registration) = None
   \<and> email bob_registration = None
   \<and> create_user example_env admin_and_alice bob_registration
       = (admin_and_alice, Inl DuplicateKeyError)
   \<and> http_status DuplicateKeyError = 500"
proof -
  have alice: "create_user example_env admin_only alice_registration
       = (admin_and_alice,
          Inr [(''username'', PStr ''alice''), (''email'', PNone), (''full_name'', PNone),
               (''disabled'', PBool False), (''role'', PStr ''user'')])"
    by (simp add: create_user_def get_user_by_username_def get_user_by_email_def find_one_def
        admin_only_def admin_doc_def alice_registration_def UserCreate_dict_def
        UserRepository_create_user_def hash_password_field_def dict_contains_def dict_get_def
        insert_one_def duplicate_key_def example_env_def Let_def admin_and_alice_def
        alice_doc_def response_model_User_def User_fields_def)
  have free: "get_user_by_username admin_and_alice (username bob_registration) = None"
    by (simp add: get_user_by_username_def find_one_def admin_and_alice_def admin_doc_def
        alice_doc_def bob_registration_def)
  have bob: "create_user example_env admin_and_alice bob_registration
       = (admin_and_alice, Inl DuplicateKeyError)"
    by (simp add: create_user_def get_user_by_username_def get_user_by_email_def find_one_def
        admin_and_alice_def admin_doc_def alice_doc_def bob_registration_def UserCreate_dict_def
        UserRepository_create_user_def hash_password_field_def dict_contains_def dict_get_def
        insert_one_def duplicate_key_def example_env_def Let_def)
  show ?thesis
    using startup_on_empty alice free bob by (simp add: bob_registration_def)
qed

end
